theory Spec2Isabelle
  imports Complex_Main "HOL-Library.Word"
begin

section \<open>Errors\<close>

text \<open>
  The exceptions that \<open>conv-charm.py\<close> can raise on the paths modelled here, as values.
  \<open>ValueError_slices\<close> is the \<open>ValueError\<close> of \<open>SliceTransform.__init__\<close> with the two
  numbers of its message; \<open>AttributeError\<close> carries the name of the missing attribute;
  \<open>InvalidArgument\<close> stands for the errors the tensor operations raise on operands whose
  shapes do not fit (an uneven \<open>tf.split\<close>, a \<open>tf.concat\<close> of nothing or of tensors of
  different spatial shape); \<open>SignatureError\<close> is the rejection of a call by the input
  signature of a compiled function.
\<close>

datatype error =
    ValueError_slices int int
  | ZeroDivisionError
  | AssertionError
  | AttributeError string
  | IndexError
  | InvalidArgument
  | SignatureError

section \<open>Floating-point values with their special cases\<close>

text \<open>
  The scale table is computed in floating point, where a division by zero does not raise:
  it yields an infinity or a NaN. \<open>fl\<close> keeps the three special values of IEEE 754 beside
  the finite ones. Finite results are exact reals: rounding, overflow and the sign of zero
  are not modelled (the only zero divisor of the source is \<open>1 - 1.\<close>, which is \<open>+0.0\<close>).
\<close>

datatype fl = Fin real | PInf | NInf | NaN

fun is_finite :: "fl \<Rightarrow> bool" where
  "is_finite (Fin x) = True"
| "is_finite PInf = False"
| "is_finite NInf = False"
| "is_finite NaN = False"

fun fl_neg :: "fl \<Rightarrow> fl" where
  "fl_neg (Fin x) = Fin (- x)"
| "fl_neg PInf = NInf"
| "fl_neg NInf = PInf"
| "fl_neg NaN = NaN"

fun fl_add :: "fl \<Rightarrow> fl \<Rightarrow> fl" where
  "fl_add (Fin a) (Fin b) = Fin (a + b)"
| "fl_add NaN y = NaN"
| "fl_add x NaN = NaN"
| "fl_add PInf NInf = NaN"
| "fl_add NInf PInf = NaN"
| "fl_add PInf y = PInf"
| "fl_add NInf y = NInf"
| "fl_add (Fin a) y = y"

definition fl_sub :: "fl \<Rightarrow> fl \<Rightarrow> fl" where
  "fl_sub x y = fl_add x (fl_neg y)"

text \<open>The infinity that has the sign of the real \<open>s\<close>; NaN when \<open>s\<close> is zero.\<close>

definition signed_inf :: "real \<Rightarrow> fl" where
  "signed_inf s = (if s = 0 then NaN else if 0 < s then PInf else NInf)"

fun fl_mul :: "fl \<Rightarrow> fl \<Rightarrow> fl" where
  "fl_mul (Fin a) (Fin b) = Fin (a * b)"
| "fl_mul NaN y = NaN"
| "fl_mul x NaN = NaN"
| "fl_mul PInf (Fin b) = signed_inf b"
| "fl_mul NInf (Fin b) = signed_inf (- b)"
| "fl_mul (Fin a) PInf = signed_inf a"
| "fl_mul (Fin a) NInf = signed_inf (- a)"
| "fl_mul PInf PInf = PInf"
| "fl_mul PInf NInf = NInf"
| "fl_mul NInf PInf = NInf"
| "fl_mul NInf NInf = PInf"

fun fl_div :: "fl \<Rightarrow> fl \<Rightarrow> fl" where
  "fl_div (Fin a) (Fin b) = (if b = 0 then signed_inf a else Fin (a / b))"
| "fl_div NaN y = NaN"
| "fl_div x NaN = NaN"
| "fl_div (Fin a) PInf = Fin 0"
| "fl_div (Fin a) NInf = Fin 0"
| "fl_div PInf (Fin b) = (if 0 \<le> b then PInf else NInf)"
| "fl_div NInf (Fin b) = (if 0 \<le> b then NInf else PInf)"
| "fl_div PInf y = NaN"
| "fl_div NInf y = NaN"

fun fl_log :: "fl \<Rightarrow> fl" where
  "fl_log (Fin x) = (if 0 < x then Fin (ln x) else if x = 0 then NInf else NaN)"
| "fl_log PInf = PInf"
| "fl_log NInf = NaN"
| "fl_log NaN = NaN"

fun fl_exp :: "fl \<Rightarrow> fl" where
  "fl_exp (Fin x) = Fin (exp x)"
| "fl_exp PInf = PInf"
| "fl_exp NInf = Fin 0"
| "fl_exp NaN = NaN"

text \<open>Comparison of floats: false as soon as one side is NaN.\<close>

fun fl_less :: "fl \<Rightarrow> fl \<Rightarrow> bool" where
  "fl_less (Fin a) (Fin b) = (a < b)"
| "fl_less NaN y = False"
| "fl_less x NaN = False"
| "fl_less NInf NInf = False"
| "fl_less NInf y = True"
| "fl_less x PInf = (x \<noteq> PInf)"
| "fl_less x NInf = False"
| "fl_less PInf y = False"

section \<open>The scale table\<close>

text \<open>
  Lines 174 to 177 of \<open>ConvCharm.__init__\<close>:
  \<^verbatim>\<open>
    offset = tf.math.log(scale_min)
    factor = (tf.math.log(scale_max) - tf.math.log(scale_min)) / (num_scales - 1.)
    self.scale_fn = lambda i: tf.math.exp(offset + factor * i)
  \<close>
  \<open>num_scales\<close> is a Python integer, \<open>scale_min\<close> and \<open>scale_max\<close> are Python floats.
\<close>

definition scale_offset :: "real \<Rightarrow> fl" where
  "scale_offset scale_min = fl_log (Fin scale_min)"

definition scale_factor :: "int \<Rightarrow> real \<Rightarrow> real \<Rightarrow> fl" where
  "scale_factor num_scales scale_min scale_max =
     fl_div (fl_sub (fl_log (Fin scale_max)) (fl_log (Fin scale_min)))
            (Fin (real_of_int num_scales - 1))"

definition make_scale_fn :: "int \<Rightarrow> real \<Rightarrow> real \<Rightarrow> fl \<Rightarrow> fl" where
  "make_scale_fn num_scales scale_min scale_max =
     (let offset = scale_offset scale_min;
          factor = scale_factor num_scales scale_min scale_max
      in (\<lambda>i. fl_exp (fl_add offset (fl_mul factor i))))"

section \<open>Python and TensorFlow primitives\<close>

text \<open>
  A float tensor is the nested list of its entries in the order of the source's axes:
  batch, height, width, channel. An image is height, width, channel of bytes. A shape
  descriptor such as \<open>y_shape\<close> is the pair of a height and a width; a compressed string
  is a \<open>string\<close>.
\<close>

type_synonym tensor = "real list list list list"
type_synonym image = "8 word list list list"
type_synonym shape2 = "int \<times> int"
type_synonym bitstring = string

text \<open>
  Python's and TensorFlow's slice \<open>xs[b:e]\<close> with stride one: a negative bound counts from
  the end, and both bounds are clipped to the list. \<open>xs[:e]\<close> is \<open>py_slice_to e xs\<close>.
\<close>

definition slice_bound :: "nat \<Rightarrow> int \<Rightarrow> nat" where
  "slice_bound n i = (if i < 0 then nat (max 0 (int n + i)) else min n (nat i))"

definition py_slice :: "int \<Rightarrow> int \<Rightarrow> 'a list \<Rightarrow> 'a list" where
  "py_slice b e xs =
     (let n = length xs; b' = slice_bound n b; e' = slice_bound n e
      in take (e' - b') (drop b' xs))"

definition py_slice_to :: "int \<Rightarrow> 'a list \<Rightarrow> 'a list" where
  "py_slice_to e xs = take (slice_bound (length xs) e) xs"

text \<open>\<open>range(n)\<close>, empty when \<open>n\<close> is not positive.\<close>

definition py_range :: "int \<Rightarrow> nat list" where
  "py_range n = [0..<nat n]"

text \<open>\<open>a // b\<close> on Python integers: floor division, raising on a zero divisor.\<close>

definition py_floordiv :: "int \<Rightarrow> int \<Rightarrow> error + int" where
  "py_floordiv a b = (if b = 0 then Inl ZeroDivisionError else Inr (a div b))"

text \<open>\<open>t[:, :, :, b:e]\<close>: a range of channels.\<close>

definition slice_channels :: "int \<Rightarrow> int \<Rightarrow> tensor \<Rightarrow> tensor" where
  "slice_channels b e t = map (map (map (py_slice b e))) t"

text \<open>\<open>t[:, :h, :w, :]\<close>: the spatial crop.\<close>

definition crop_spatial :: "shape2 \<Rightarrow> tensor \<Rightarrow> tensor" where
  "crop_spatial hw t = map (\<lambda>im. map (py_slice_to (snd hw)) (py_slice_to (fst hw) im)) t"

text \<open>\<open>tf.shape(t)[1:-1]\<close>: height and width.\<close>

definition spatial_shape :: "tensor \<Rightarrow> shape2" where
  "spatial_shape t =
     (case t of [] \<Rightarrow> (0, 0)
      | im # _ \<Rightarrow> (int (length im), (case im of [] \<Rightarrow> 0 | row # _ \<Rightarrow> int (length row))))"

text \<open>
  The number of channels, read at the first pixel, and the statement that every pixel of
  a tensor has \<open>d\<close> channels.
\<close>

definition depth :: "tensor \<Rightarrow> nat" where
  "depth t = (case t of ((px # _) # _) # _ \<Rightarrow> length px | _ \<Rightarrow> 0)"

definition has_depth :: "nat \<Rightarrow> tensor \<Rightarrow> bool" where
  "has_depth d t = list_all (list_all (list_all (\<lambda>px. length px = d))) t"

text \<open>
  \<open>tf.split(t, n, axis=-1)\<close>: \<open>n\<close> tensors of equal depth; an error when \<open>n\<close> does not
  divide the number of channels.
\<close>

definition tf_split :: "int \<Rightarrow> tensor \<Rightarrow> error + tensor list" where
  "tf_split n t =
     (if n \<le> 0 \<or> int (depth t) mod n \<noteq> 0 then Inl InvalidArgument
      else (let sz = depth t div nat n
            in Inr (map (\<lambda>i. map (map (map (\<lambda>px. take sz (drop (i * sz) px)))) t)
                        [0..<nat n])))"

text \<open>
  \<open>tf.concat(ts, axis=-1)\<close>: the pixels of the operands appended, for operands of one
  spatial shape; an error for an empty list.
\<close>

definition same_spatial :: "tensor \<Rightarrow> tensor \<Rightarrow> bool" where
  "same_spatial a b =
     list_all2 (\<lambda>x y. list_all2 (\<lambda>r s. length r = length s) x y) a b"

definition concat2 :: "tensor \<Rightarrow> tensor \<Rightarrow> error + tensor" where
  "concat2 a b =
     (if same_spatial a b then Inr (map2 (map2 (map2 (@))) a b) else Inl InvalidArgument)"

fun tf_concat_from :: "tensor \<Rightarrow> tensor list \<Rightarrow> error + tensor" where
  "tf_concat_from acc [] = Inr acc"
| "tf_concat_from acc (t # ts) =
     (case concat2 acc t of Inl e \<Rightarrow> Inl e | Inr acc' \<Rightarrow> tf_concat_from acc' ts)"

fun tf_concat :: "tensor list \<Rightarrow> error + tensor" where
  "tf_concat [] = Inl InvalidArgument"
| "tf_concat (t # ts) = tf_concat_from t ts"

text \<open>\<open>tf.round\<close> rounds half to even; its value is integral.\<close>

definition tf_round :: "real \<Rightarrow> int" where
  "tf_round x =
     (let f = \<lfloor>x\<rfloor>; d = x - of_int f
      in if d < 1 / 2 then f else if 1 / 2 < d then f + 1
         else if even f then f else f + 1)"

text \<open>\<open>tf.saturate_cast(_, tf.uint8)\<close>: clip to the range of a byte, then convert.\<close>

definition saturate_cast_uint8 :: "int \<Rightarrow> 8 word" where
  "saturate_cast_uint8 v = word_of_int (max 0 (min 255 v))"

text \<open>\<open>tf.cast(tf.expand_dims(x, 0), float)\<close> on an image of bytes.\<close>

definition image_to_batch :: "image \<Rightarrow> tensor" where
  "image_to_batch x = [map (map (map (\<lambda>p. real (unat p)))) x]"

section \<open>The entropy models and the networks\<close>

text \<open>
  The entropy models of \<open>tensorflow_compression\<close> and the convolutional networks are
  collaborators of the code, not part of it: the model takes them as functions, and every
  theorem holds for all of them. \<open>cbem\<close> is a \<open>ContinuousBatchedEntropyModel\<close> (methods
  \<open>quantize(z)\<close>, \<open>compress(z)\<close>, \<open>decompress(string, shape)\<close>); \<open>lsiem\<close> is a
  \<open>LocationScaleIndexedEntropyModel\<close> (methods \<open>quantize(y, loc)\<close>,
  \<open>compress(y, indexes, loc)\<close>, \<open>decompress(string, indexes, loc)\<close>).
\<close>

record cbem =
  cbem_quantize :: "tensor \<Rightarrow> tensor"
  cbem_compress :: "tensor \<Rightarrow> bitstring"
  cbem_decompress :: "bitstring \<Rightarrow> shape2 \<Rightarrow> tensor"

record lsiem =
  lsiem_quantize :: "tensor \<Rightarrow> tensor \<Rightarrow> tensor"
  lsiem_compress :: "tensor \<Rightarrow> tensor \<Rightarrow> tensor \<Rightarrow> bitstring"
  lsiem_decompress :: "bitstring \<Rightarrow> tensor \<Rightarrow> tensor \<Rightarrow> tensor"

text \<open>
  What the constructor draws from the libraries: each transform as the function it
  computes, by the depths it is built with (the two families of slice networks also by
  their position in the list), and the two entropy models by their \<open>compression\<close> flag.
\<close>

record networks =
  net_analysis :: "int \<Rightarrow> tensor \<Rightarrow> tensor"
  net_synthesis :: "int \<Rightarrow> tensor \<Rightarrow> tensor"
  net_hyper_analysis :: "int \<Rightarrow> tensor \<Rightarrow> tensor"
  net_hyper_synthesis :: "int \<Rightarrow> int \<Rightarrow> tensor \<Rightarrow> tensor"
  net_cc_mean :: "nat \<Rightarrow> int \<Rightarrow> tensor \<Rightarrow> tensor"
  net_cc_scale :: "nat \<Rightarrow> int \<Rightarrow> tensor \<Rightarrow> tensor"
  net_hyperprior :: "int \<Rightarrow> bool \<Rightarrow> cbem"
  net_conditional :: "int \<Rightarrow> (fl \<Rightarrow> fl) \<Rightarrow> bool \<Rightarrow> lsiem"

section \<open>The model object and its constructor\<close>

text \<open>
  The attributes of a \<open>ConvCharm\<close> object. \<open>hyperprior c\<close> is
  \<open>tfc.ContinuousBatchedEntropyModel(self.hyperprior, coding_rank=3, compression=c,
  offset_heuristic=False)\<close>, and \<open>conditional n f c\<close> is
  \<open>tfc.LocationScaleIndexedEntropyModel(tfc.NoisyNormal, num_scales=n, scale_fn=f,
  coding_rank=3, compression=c)\<close>. The attributes \<open>em_z\<close> and \<open>em_y\<close> do not exist until
  \<open>fit\<close> assigns them: \<open>None\<close> is the missing attribute.
\<close>

record ConvCharm =
  lmbda :: real
  num_scales :: int
  num_slices :: int
  slice_size :: int
  max_support_slices :: int
  scale_fn :: "fl \<Rightarrow> fl"
  analysis_transform :: "tensor \<Rightarrow> tensor"
  synthesis_transform :: "tensor \<Rightarrow> tensor"
  hyper_analysis_transform :: "tensor \<Rightarrow> tensor"
  hyper_synthesis_mean_scale_transform :: "tensor \<Rightarrow> tensor"
  cc_mean_transforms :: "(tensor \<Rightarrow> tensor) list"
  cc_scale_transforms :: "(tensor \<Rightarrow> tensor) list"
  hyperprior :: "bool \<Rightarrow> cbem"
  conditional :: "int \<Rightarrow> (fl \<Rightarrow> fl) \<Rightarrow> bool \<Rightarrow> lsiem"
  em_z :: "cbem option"
  em_y :: "lsiem option"

text \<open>
  \<open>SliceTransform.__init__\<close> (lines 140 to 158): the check that the slices divide the
  latent depth, then the network of \<open>slice_depth\<close> output channels.
\<close>

definition SliceTransform_init ::
  "(int \<Rightarrow> tensor \<Rightarrow> tensor) \<Rightarrow> int \<Rightarrow> int \<Rightarrow> error + (tensor \<Rightarrow> tensor)" where
  "SliceTransform_init net latent_depth n =
     (case py_floordiv latent_depth n of
        Inl e \<Rightarrow> Inl e
      | Inr slice_depth \<Rightarrow>
          if slice_depth * n \<noteq> latent_depth then Inl (ValueError_slices latent_depth n)
          else Inr (net slice_depth))"

text \<open>A list comprehension whose element expression may raise: the first error wins.\<close>

fun comprehension :: "(nat \<Rightarrow> error + 'a) \<Rightarrow> nat list \<Rightarrow> error + 'a list" where
  "comprehension f [] = Inr []"
| "comprehension f (i # is) =
     (case f i of
        Inl e \<Rightarrow> Inl e
      | Inr v \<Rightarrow> (case comprehension f is of Inl e \<Rightarrow> Inl e | Inr vs \<Rightarrow> Inr (v # vs)))"

text \<open>
  \<open>ConvCharm.__init__\<close> (lines 164 to 196), in the order of its statements: the slice
  size, the scale function, the four transforms, the two lists of slice networks. The
  call \<open>self.build\<close> of line 190, which lets Keras trace \<open>call\<close> on symbolic inputs, is the
  framework's and is not part of the model; the compiled \<open>decompress\<close> of lines 193 to 196
  is \<open>decompress_compiled\<close> below.
\<close>

definition ConvCharm_init ::
  "networks \<Rightarrow> real \<Rightarrow> int \<Rightarrow> int \<Rightarrow> int \<Rightarrow> int \<Rightarrow> int \<Rightarrow> int \<Rightarrow> real \<Rightarrow> real
     \<Rightarrow> error + ConvCharm" where
  "ConvCharm_init nets lmbda' num_filters latent_depth hyperprior_depth n
       max_support_slices' num_scales' scale_min scale_max =
     (case py_floordiv latent_depth n of
        Inl e \<Rightarrow> Inl e
      | Inr slice_size' \<Rightarrow>
     (case comprehension (\<lambda>i. SliceTransform_init (net_cc_mean nets i) latent_depth n)
             (py_range n) of
        Inl e \<Rightarrow> Inl e
      | Inr means \<Rightarrow>
     (case comprehension (\<lambda>i. SliceTransform_init (net_cc_scale nets i) latent_depth n)
             (py_range n) of
        Inl e \<Rightarrow> Inl e
      | Inr scales \<Rightarrow>
          Inr \<lparr> lmbda = lmbda',
                num_scales = num_scales',
                num_slices = n,
                slice_size = slice_size',
                max_support_slices = max_support_slices',
                scale_fn = make_scale_fn num_scales' scale_min scale_max,
                analysis_transform = net_analysis nets latent_depth,
                synthesis_transform = net_synthesis nets latent_depth,
                hyper_analysis_transform = net_hyper_analysis nets hyperprior_depth,
                hyper_synthesis_mean_scale_transform =
                  net_hyper_synthesis nets hyperprior_depth latent_depth,
                cc_mean_transforms = means,
                cc_scale_transforms = scales,
                hyperprior = net_hyperprior nets hyperprior_depth,
                conditional = net_conditional nets,
                em_z = None,
                em_y = None \<rparr>)))"

section \<open>Conditioning a slice\<close>

text \<open>
  The body that the loops of \<open>call\<close>, \<open>compress\<close> and \<open>decompress\<close> share word for word
  (lines 241 to 259, 365 to 383 and 406 to 424). First the support:
  \<^verbatim>\<open>
    support_slices = (y_hat_slices if self.max_support_slices < 0 else
                      y_hat_slices[:self.max_support_slices])
  \<close>
\<close>

definition support_slices :: "ConvCharm \<Rightarrow> 'a list \<Rightarrow> 'a list" where
  "support_slices self y_hat_slices =
     (if max_support_slices self < 0 then y_hat_slices
      else py_slice_to (max_support_slices self) y_hat_slices)"

text \<open>
  Then the context of the slice, cut out of \<open>latent_means\<close> and of \<open>latent_scales\<close>:
  \<^verbatim>\<open>
    start_index = slice_index * self.slice_size
    end_index = slice_index * self.slice_size + self.slice_size
    latent_means_slice = latent_means[:, :, :, start_index:end_index]
  \<close>
\<close>

definition context_slice :: "ConvCharm \<Rightarrow> nat \<Rightarrow> tensor \<Rightarrow> tensor" where
  "context_slice self slice_index latent =
     (let start_index = int slice_index * slice_size self;
          end_index = int slice_index * slice_size self + slice_size self
      in slice_channels start_index end_index latent)"

text \<open>
  Then \<open>mu\<close> and \<open>sigma\<close>: the context concatenated with the support, through the network
  of the slice, cropped to \<open>y_shape\<close>. Indexing a list of networks past its end raises.
\<close>

definition predict ::
  "ConvCharm \<Rightarrow> tensor \<Rightarrow> tensor \<Rightarrow> shape2 \<Rightarrow> nat \<Rightarrow> tensor list \<Rightarrow> error + tensor \<times> tensor"
  where
  "predict self latent_means latent_scales y_shape slice_index support =
     (let latent_means_slice = context_slice self slice_index latent_means;
          latent_scales_slice = context_slice self slice_index latent_scales
      in case tf_concat (latent_means_slice # support) of
           Inl e \<Rightarrow> Inl e
         | Inr mean_support \<Rightarrow>
             if length (cc_mean_transforms self) \<le> slice_index then Inl IndexError
             else
               (let mu = crop_spatial y_shape
                           ((cc_mean_transforms self ! slice_index) mean_support)
                in case tf_concat (latent_scales_slice # support) of
                     Inl e \<Rightarrow> Inl e
                   | Inr scale_support \<Rightarrow>
                       if length (cc_scale_transforms self) \<le> slice_index
                       then Inl IndexError
                       else Inr (mu, crop_spatial y_shape
                                  ((cc_scale_transforms self ! slice_index) scale_support))))"

text \<open>
  The loop \<open>for slice_index, item in enumerate(items)\<close>. The three loops of the source
  differ in one step only, the coding of the slice once \<open>mu\<close> and \<open>sigma\<close> are known:
  \<open>code item sigma mu\<close> returns what the loop records for the slice (nothing in \<open>call\<close>,
  the string in \<open>compress\<close>, nothing in \<open>decompress\<close>) and the decoded slice that is
  appended to \<open>y_hat_slices\<close>.
\<close>

fun slice_loop ::
  "ConvCharm \<Rightarrow> ('x \<Rightarrow> tensor \<Rightarrow> tensor \<Rightarrow> error + 'r \<times> tensor) \<Rightarrow> tensor \<Rightarrow> tensor \<Rightarrow> shape2
     \<Rightarrow> nat \<Rightarrow> 'x list \<Rightarrow> 'r list \<Rightarrow> tensor list \<Rightarrow> error + 'r list \<times> tensor list" where
  "slice_loop self code latent_means latent_scales y_shape slice_index [] recorded
       y_hat_slices = Inr (recorded, y_hat_slices)"
| "slice_loop self code latent_means latent_scales y_shape slice_index (item # items)
       recorded y_hat_slices =
     (case predict self latent_means latent_scales y_shape slice_index
             (support_slices self y_hat_slices) of
        Inl e \<Rightarrow> Inl e
      | Inr (mu, sigma) \<Rightarrow>
          (case code item sigma mu of
             Inl e \<Rightarrow> Inl e
           | Inr (r, y_hat_slice) \<Rightarrow>
               slice_loop self code latent_means latent_scales y_shape (Suc slice_index)
                 items (recorded @ [r]) (y_hat_slices @ [y_hat_slice])))"

text \<open>
  The hyperprior context (lines 226 and 227, 358 and 359, 400 and 401): the output of the
  hyper-synthesis transform, split in two halves along the channels.
\<close>

definition hyper_context :: "ConvCharm \<Rightarrow> tensor \<Rightarrow> error + tensor \<times> tensor" where
  "hyper_context self z_hat =
     (case tf_split 2 (hyper_synthesis_mean_scale_transform self z_hat) of
        Inl e \<Rightarrow> Inl e
      | Inr parts \<Rightarrow>
          (case parts of
             [latent_means, latent_scales] \<Rightarrow> Inr (latent_means, latent_scales)
           | _ \<Rightarrow> Inl InvalidArgument))"

section \<open>The forward pass of training and evaluation\<close>

text \<open>
  \<open>ConvCharm.call\<close> up to the reconstruction (lines 201 to 276). The entropy models are
  built on the spot with \<open>compression=False\<close>; the slice is decoded by
  \<open>em_y.quantize(y_slice, loc=mu)\<close>. The rate terms of lines 216 to 218 and 261 to 266
  and the loss of lines 278 to 290 are read off these values and do not flow back into
  \<open>y_hat_slices\<close>; they are not modelled.
\<close>

definition call_code :: "lsiem \<Rightarrow> tensor \<Rightarrow> tensor \<Rightarrow> tensor \<Rightarrow> error + unit \<times> tensor" where
  "call_code em y_slice sigma mu = Inr ((), lsiem_quantize em y_slice mu)"

definition call_slices :: "ConvCharm \<Rightarrow> tensor \<Rightarrow> error + tensor list" where
  "call_slices self x =
     (let y = analysis_transform self x;
          y_shape = spatial_shape y;
          z = hyper_analysis_transform self y;
          em_z' = hyperprior self False;
          z_hat = cbem_quantize em_z' z
      in case hyper_context self z_hat of
           Inl e \<Rightarrow> Inl e
         | Inr (latent_means, latent_scales) \<Rightarrow>
             (let em_y' = conditional self (num_scales self) (scale_fn self) False
              in case tf_split (num_slices self) y of
                   Inl e \<Rightarrow> Inl e
                 | Inr y_slices \<Rightarrow>
                     (case slice_loop self (call_code em_y') latent_means latent_scales
                             y_shape 0 y_slices [] [] of
                        Inl e \<Rightarrow> Inl e
                      | Inr (_, y_hat_slices) \<Rightarrow> Inr y_hat_slices)))"

definition call_reconstruction :: "ConvCharm \<Rightarrow> tensor \<Rightarrow> error + tensor" where
  "call_reconstruction self x =
     (case call_slices self x of
        Inl e \<Rightarrow> Inl e
      | Inr y_hat_slices \<Rightarrow>
          (case tf_concat y_hat_slices of
             Inl e \<Rightarrow> Inl e
           | Inr y_hat \<Rightarrow> Inr (synthesis_transform self y_hat)))"

section \<open>Freezing the entropy models\<close>

text \<open>
  \<open>ConvCharm.fit\<close> (lines 325 to 334): the training of Keras, whatever it does to the
  object, then the two entropy models with \<open>compression=True\<close>.
\<close>

definition fit :: "(ConvCharm \<Rightarrow> ConvCharm) \<Rightarrow> ConvCharm \<Rightarrow> ConvCharm" where
  "fit super_fit self =
     (let trained = super_fit self
      in trained \<lparr> em_z := Some (hyperprior trained True),
                   em_y := Some (conditional trained (num_scales trained)
                                   (scale_fn trained) True) \<rparr>)"

section \<open>Compression\<close>

text \<open>
  The coding step of \<open>compress\<close> (lines 385 to 387): the slice is encoded, and decoded
  again from its own string. Reading \<open>self.em_y\<close> raises when the attribute is missing.
\<close>

definition compress_code ::
  "ConvCharm \<Rightarrow> tensor \<Rightarrow> tensor \<Rightarrow> tensor \<Rightarrow> error + bitstring \<times> tensor" where
  "compress_code self y_slice sigma mu =
     (case em_y self of
        None \<Rightarrow> Inl (AttributeError ''em_y'')
      | Some em \<Rightarrow>
          (let slice_string = lsiem_compress em y_slice sigma mu
           in Inr (slice_string, lsiem_decompress em slice_string sigma mu)))"

text \<open>
  \<open>ConvCharm.compress\<close> (lines 339 to 391). \<open>compress_locals\<close> is the body up to the end of
  the loop, with the value of \<open>y_hat_slices\<close> there beside the returned tuple;
  \<open>compress\<close> returns the tuple.
\<close>

definition compress_locals ::
  "ConvCharm \<Rightarrow> image
     \<Rightarrow> error + (shape2 \<times> shape2 \<times> shape2 \<times> bitstring \<times> bitstring list) \<times> tensor list" where
  "compress_locals self x =
     (let x' = image_to_batch x;
          x_shape = spatial_shape x';
          y = analysis_transform self x';
          y_shape = spatial_shape y;
          z = hyper_analysis_transform self y;
          z_shape = spatial_shape z
      in case em_z self of
           None \<Rightarrow> Inl (AttributeError ''em_z'')
         | Some em \<Rightarrow>
             (let z_string = cbem_compress em z;
                  z_hat = cbem_decompress em z_string z_shape
              in case hyper_context self z_hat of
                   Inl e \<Rightarrow> Inl e
                 | Inr (latent_means, latent_scales) \<Rightarrow>
                     (case tf_split (num_slices self) y of
                        Inl e \<Rightarrow> Inl e
                      | Inr y_slices \<Rightarrow>
                          (case slice_loop self (compress_code self) latent_means
                                  latent_scales y_shape 0 y_slices [] [] of
                             Inl e \<Rightarrow> Inl e
                           | Inr (y_strings, y_hat_slices) \<Rightarrow>
                               Inr ((x_shape, y_shape, z_shape, z_string, y_strings),
                                    y_hat_slices)))))"

definition compress ::
  "ConvCharm \<Rightarrow> image \<Rightarrow> error + shape2 \<times> shape2 \<times> shape2 \<times> bitstring \<times> bitstring list" where
  "compress self x =
     (case compress_locals self x of Inl e \<Rightarrow> Inl e | Inr (result, _) \<Rightarrow> Inr result)"

section \<open>Decompression\<close>

text \<open>The coding step of \<open>decompress\<close> (line 426).\<close>

definition decompress_code ::
  "ConvCharm \<Rightarrow> bitstring \<Rightarrow> tensor \<Rightarrow> tensor \<Rightarrow> error + unit \<times> tensor" where
  "decompress_code self y_string sigma mu =
     (case em_y self of
        None \<Rightarrow> Inl (AttributeError ''em_y'')
      | Some em \<Rightarrow> Inr ((), lsiem_decompress em y_string sigma mu))"

text \<open>
  The end of \<open>decompress\<close> (lines 430 to 437): the slices merged, the synthesis transform,
  the first element of the batch cropped to \<open>x_shape\<close>, rounded and cast to bytes. The
  function returns the image together with \<open>y_hat\<close>.
\<close>

definition crop_image :: "shape2 \<Rightarrow> real list list list \<Rightarrow> real list list list" where
  "crop_image hw im = map (py_slice_to (snd hw)) (py_slice_to (fst hw) im)"

definition decompress_finish ::
  "ConvCharm \<Rightarrow> shape2 \<Rightarrow> tensor list \<Rightarrow> error + image \<times> tensor" where
  "decompress_finish self x_shape y_hat_slices =
     (case tf_concat y_hat_slices of
        Inl e \<Rightarrow> Inl e
      | Inr y_hat \<Rightarrow>
          (case synthesis_transform self y_hat of
             [] \<Rightarrow> Inl InvalidArgument
           | x_hat0 # _ \<Rightarrow>
               Inr (map (map (map (\<lambda>v. saturate_cast_uint8 (tf_round v))))
                      (crop_image x_shape x_hat0),
                    y_hat)))"

text \<open>\<open>ConvCharm.decompress\<close> (lines 393 to 437).\<close>

definition decompress_slices ::
  "ConvCharm \<Rightarrow> shape2 \<Rightarrow> shape2 \<Rightarrow> bitstring \<Rightarrow> bitstring list \<Rightarrow> error + tensor list" where
  "decompress_slices self y_shape z_shape z_string y_strings =
     (if int (length y_strings) \<noteq> num_slices self then Inl AssertionError
      else case em_z self of
             None \<Rightarrow> Inl (AttributeError ''em_z'')
           | Some em \<Rightarrow>
               (let z_hat = cbem_decompress em z_string z_shape
                in case hyper_context self z_hat of
                     Inl e \<Rightarrow> Inl e
                   | Inr (latent_means, latent_scales) \<Rightarrow>
                       (case slice_loop self (decompress_code self) latent_means
                               latent_scales y_shape 0 y_strings [] [] of
                          Inl e \<Rightarrow> Inl e
                        | Inr (_, y_hat_slices) \<Rightarrow> Inr y_hat_slices)))"

definition decompress ::
  "ConvCharm \<Rightarrow> shape2 \<Rightarrow> shape2 \<Rightarrow> shape2 \<Rightarrow> bitstring \<Rightarrow> bitstring list
     \<Rightarrow> error + image \<times> tensor" where
  "decompress self x_shape y_shape z_shape z_string y_strings =
     (case decompress_slices self y_shape z_shape z_string y_strings of
        Inl e \<Rightarrow> Inl e
      | Inr y_hat_slices \<Rightarrow> decompress_finish self x_shape y_hat_slices)"

text \<open>
  The compiled \<open>decompress\<close> of lines 193 to 196: its input signature is a list of three
  shapes and \<open>num_slices + 1\<close> strings, and a call with another number of arguments does
  not reach the body.
\<close>

definition decompress_signature :: "ConvCharm \<Rightarrow> nat" where
  "decompress_signature self = 3 + nat (num_slices self + 1)"

definition decompress_compiled ::
  "ConvCharm \<Rightarrow> shape2 \<Rightarrow> shape2 \<Rightarrow> shape2 \<Rightarrow> bitstring \<Rightarrow> bitstring list
     \<Rightarrow> error + image \<times> tensor" where
  "decompress_compiled self x_shape y_shape z_shape z_string y_strings =
     (if 4 + length y_strings \<noteq> decompress_signature self then Inl SignatureError
      else decompress self x_shape y_shape z_shape z_string y_strings)"

section \<open>A small instance\<close>

text \<open>
  Networks and entropy models small enough to run the definitions by hand: every network
  sums the channels of a pixel and repeats the sum over its output channels, the
  hyperprior model decodes a constant tensor of the requested shape, and the conditional
  model encodes a slice as one character per channel and decodes \<open>mu\<close> shifted by the
  length of the string. Built with \<open>compression=False\<close> the two models code otherwise:
  the hyperprior model writes another string, the conditional model writes the empty
  string and decodes \<open>mu\<close> as it is. \<open>toy_model\<close> is the object as constructed,
  \<open>toy_frozen\<close> the object after \<open>fit\<close> (with a training that changes nothing).
\<close>

definition toy_pixelwise :: "(real list \<Rightarrow> real list) \<Rightarrow> tensor \<Rightarrow> tensor" where
  "toy_pixelwise f t = map (map (map f)) t"

definition toy_cbem :: "int \<Rightarrow> bool \<Rightarrow> cbem" where
  "toy_cbem d c =
     \<lparr> cbem_quantize = toy_pixelwise (map (\<lambda>v. real_of_int (tf_round v))),
       cbem_compress = (\<lambda>z. if c then ''z'' else ''zz''),
       cbem_decompress = (\<lambda>s hw. [replicate (nat (fst hw)) (replicate (nat (snd hw))
                                      (replicate (nat d) (real (length s))))]) \<rparr>"

definition toy_lsiem :: "bool \<Rightarrow> lsiem" where
  "toy_lsiem c =
     \<lparr> lsiem_quantize = (\<lambda>y mu. toy_pixelwise (map (\<lambda>v. real_of_int (tf_round v))) y),
       lsiem_compress = (\<lambda>y sigma mu. if c then replicate (depth y) CHR ''y'' else []),
       lsiem_decompress =
         (\<lambda>s sigma mu. toy_pixelwise (map (\<lambda>v. v + (if c then real (length s) else 0))) mu) \<rparr>"

definition toy_networks :: networks where
  "toy_networks =
     \<lparr> net_analysis = (\<lambda>d. toy_pixelwise (\<lambda>px. replicate (nat d) (sum_list px))),
       net_synthesis = (\<lambda>d. toy_pixelwise (\<lambda>px. replicate 3 (sum_list px))),
       net_hyper_analysis = (\<lambda>d. toy_pixelwise (\<lambda>px. replicate (nat d) (sum_list px))),
       net_hyper_synthesis = (\<lambda>h d. toy_pixelwise (\<lambda>px. replicate (nat d) (sum_list px))),
       net_cc_mean = (\<lambda>i d. toy_pixelwise (\<lambda>px. replicate (nat d) (sum_list px))),
       net_cc_scale = (\<lambda>i d. toy_pixelwise (\<lambda>px. replicate (nat d) 0)),
       net_hyperprior = (\<lambda>d c. toy_cbem d c),
       net_conditional = (\<lambda>n f c. toy_lsiem c) \<rparr>"

definition toy_model :: "int \<Rightarrow> int \<Rightarrow> int \<Rightarrow> error + ConvCharm" where
  "toy_model latent_depth n k =
     ConvCharm_init toy_networks (1 / 100) 192 latent_depth 2 n k 64 (11 / 100) 256"

definition toy_frozen :: "int \<Rightarrow> int \<Rightarrow> int \<Rightarrow> ConvCharm" where
  "toy_frozen latent_depth n k = fit (\<lambda>m. m) (projr (toy_model latent_depth n k))"

definition toy_image :: image where
  "toy_image = [[[1, 2, 3]]]"

text \<open>
  A synthesis transform that doubles the height and triples the width, so that its output
  is larger than the image, with values that fall between two integers, on a half, below
  \<open>0\<close> and above \<open>255\<close>: for a latent pixel of channel sum \<open>s\<close> the first output row holds
  the pixels \<open>[s / 4, 10 s, - s]\<close>, \<open>[s + 3 / 2, s / 8, s + 7 / 10]\<close> and \<open>[s, s, s]\<close>, the
  second row holds zeros. \<open>toy_upsampled\<close> is the frozen instance with this transform.
\<close>

definition toy_upsample :: "tensor \<Rightarrow> tensor" where
  "toy_upsample t =
     map (\<lambda>im. concat (map (\<lambda>row.
            [concat (map (\<lambda>px. [[sum_list px / 4, sum_list px * 10, - sum_list px],
                                [sum_list px + 3 / 2, sum_list px / 8, sum_list px + 7 / 10],
                                [sum_list px, sum_list px, sum_list px]]) row),
             concat (map (\<lambda>px. [[0, 0, 0], [0, 0, 0], [0, 0, 0]]) row)]) im)) t"

definition toy_upsampled :: ConvCharm where
  "toy_upsampled = (toy_frozen 4 2 1) \<lparr> synthesis_transform := toy_upsample \<rparr>"

text \<open>
  The frozen instance after its prior and its scale table have been changed behind the
  stored models: building the entropy models anew would now give the ones that code
  otherwise.
\<close>

definition toy_stale :: ConvCharm where
  "toy_stale = (toy_frozen 4 2 1) \<lparr> num_scales := 1,
                                     scale_fn := make_scale_fn 1 (11 / 100) 256,
                                     hyperprior := (\<lambda>c. toy_cbem 2 (\<not> c)),
                                     conditional := (\<lambda>n f c. toy_lsiem (\<not> c)) \<rparr>"

section \<open>The constructor\<close>

lemma comprehension_first_error:
  "f i = Inl e \<Longrightarrow> comprehension f (i # is) = Inl e"
  by simp

lemma py_range_pos: "0 < n \<Longrightarrow> py_range n = 0 # [1..<nat n]"
  by (simp add: py_range_def upt_conv_Cons)

lemma SliceTransform_init_nondiv:
  "n \<noteq> 0 \<Longrightarrow> \<not> n dvd latent_depth \<Longrightarrow>
     SliceTransform_init net latent_depth n = Inl (ValueError_slices latent_depth n)"
proof -
  assume n: "n \<noteq> 0" and nd: "\<not> n dvd latent_depth"
  have "latent_depth div n * n \<noteq> latent_depth"
  proof
    assume "latent_depth div n * n = latent_depth"
    then have "n dvd latent_depth" by (metis dvd_triv_right)
    with nd show False by simp
  qed
  with n show ?thesis
    by (simp add: SliceTransform_init_def py_floordiv_def)
qed

lemma SliceTransform_init_div:
  "n \<noteq> 0 \<Longrightarrow> n dvd latent_depth \<Longrightarrow>
     SliceTransform_init net latent_depth n = Inr (net (latent_depth div n))"
  by (auto simp: SliceTransform_init_def py_floordiv_def)

lemma comprehension_total:
  "(\<And>i. i \<in> set is \<Longrightarrow> f i = Inr (g i)) \<Longrightarrow> comprehension f is = Inr (map g is)"
  by (induction "is") auto

lemma ConvCharm_init_nondiv:
  assumes "0 < n" "\<not> n dvd latent_depth"
  shows "ConvCharm_init nets l nf latent_depth hyperprior_depth n ms nsc smin smax
           = Inl (ValueError_slices latent_depth n)"
  using assms
  by (simp add: ConvCharm_init_def py_floordiv_def py_range_pos SliceTransform_init_nondiv)

lemma ConvCharm_init_div:
  assumes "n \<noteq> 0" "n dvd latent_depth"
  shows "ConvCharm_init nets l nf latent_depth hyperprior_depth n ms nsc smin smax
           = Inr \<lparr> lmbda = l,
                num_scales = nsc,
                num_slices = n,
                slice_size = latent_depth div n,
                max_support_slices = ms,
                scale_fn = make_scale_fn nsc smin smax,
                analysis_transform = net_analysis nets latent_depth,
                synthesis_transform = net_synthesis nets latent_depth,
                hyper_analysis_transform = net_hyper_analysis nets hyperprior_depth,
                hyper_synthesis_mean_scale_transform =
                  net_hyper_synthesis nets hyperprior_depth latent_depth,
                cc_mean_transforms = map (\<lambda>i. net_cc_mean nets i (latent_depth div n)) (py_range n),
                cc_scale_transforms = map (\<lambda>i. net_cc_scale nets i (latent_depth div n)) (py_range n),
                hyperprior = net_hyperprior nets hyperprior_depth,
                conditional = net_conditional nets,
                em_z = None,
                em_y = None \<rparr>"
proof -
  have m: "comprehension (\<lambda>i. SliceTransform_init (net_cc_mean nets i) latent_depth n) (py_range n)
        = Inr (map (\<lambda>i. net_cc_mean nets i (latent_depth div n)) (py_range n))"
    by (rule comprehension_total) (simp add: SliceTransform_init_div assms)
  have s: "comprehension (\<lambda>i. SliceTransform_init (net_cc_scale nets i) latent_depth n) (py_range n)
        = Inr (map (\<lambda>i. net_cc_scale nets i (latent_depth div n)) (py_range n))"
    by (rule comprehension_total) (simp add: SliceTransform_init_div assms)
  show ?thesis
    using assms by (simp add: ConvCharm_init_def py_floordiv_def m s)
qed

lemma ConvCharm_init_zero:
  "ConvCharm_init nets l nf latent_depth hyperprior_depth 0 ms nsc smin smax
     = Inl ZeroDivisionError"
  by (simp add: ConvCharm_init_def py_floordiv_def)

text \<open>
  Claim C5. When the slice count \<open>n\<close> does not divide \<open>latent_depth\<close>, the constructor
  raises: the \<open>ValueError\<close> of \<open>SliceTransform\<close> while it builds the first slice network
  (for \<open>n = 0\<close>, the division of line 172 raises before), so before anything is run; and
  every object the constructor returns has \<open>latent_depth = num_slices * slice_size\<close>.
  The spec's example is \<open>latent_depth = 320\<close> with seven slices. A slice count is not
  negative.
\<close>

theorem slices_must_divide_latent_depth:
  assumes "0 \<le> n"
  shows "(\<not> n dvd latent_depth \<longrightarrow>
            ConvCharm_init nets l nf latent_depth hyperprior_depth n ms nsc smin smax
              = Inl (if n = 0 then ZeroDivisionError else ValueError_slices latent_depth n))
       \<and> (\<forall>m. ConvCharm_init nets l nf latent_depth hyperprior_depth n ms nsc smin smax = Inr m \<longrightarrow>
            num_slices m = n \<and> latent_depth = num_slices m * slice_size m)"
proof (cases "n = 0")
  case True
  then show ?thesis
    by (simp add: ConvCharm_init_zero)
next
  case False
  with assms have pos: "0 < n" by simp
  show ?thesis
  proof (cases "n dvd latent_depth")
    case True
    with False show ?thesis
      by (auto simp: ConvCharm_init_div)
  next
    case False
    with pos show ?thesis
      by (simp add: ConvCharm_init_nondiv)
  qed
qed

lemma scale_fn_finite:
  assumes "0 < smin" "0 < smax" "n \<noteq> 1"
  shows "make_scale_fn n smin smax (Fin i)
           = Fin (exp (ln smin + (ln smax - ln smin) / (real_of_int n - 1) * i))"
  using assms
  by (simp add: make_scale_fn_def scale_offset_def scale_factor_def fl_sub_def)

lemma scale_fn_one:
  assumes "0 < smin" "0 < smax"
  shows "make_scale_fn 1 smin smax (Fin 0) = NaN"
  using assms
  by (simp add: make_scale_fn_def scale_offset_def scale_factor_def fl_sub_def signed_inf_def)

lemma scale_fn_one_pos:
  assumes "0 < smin" "smin < smax" "0 < i"
  shows "make_scale_fn 1 smin smax (Fin i) = PInf"
  using assms
  by (simp add: make_scale_fn_def scale_offset_def scale_factor_def fl_sub_def signed_inf_def)

text \<open>
  Claim C7. For \<open>0 < scale_min < scale_max\<close> and \<open>num_scales \<ge> 2\<close>, \<open>scale_fn\<close> is the
  finite value \<open>exp (log scale_min + i * (log scale_max - log scale_min) / (num_scales - 1))\<close>,
  it is \<open>scale_min\<close> at index \<open>0\<close> and \<open>scale_max\<close> at index \<open>num_scales - 1\<close>, and it is
  strictly increasing in the index (on all reals, so on \<open>[0, num_scales - 1]\<close>). The
  values are those of exact arithmetic.
\<close>

theorem scale_fn_increasing:
  assumes "0 < smin" "smin < smax" "2 \<le> n"
  shows "make_scale_fn n smin smax (Fin 0) = Fin smin
       \<and> make_scale_fn n smin smax (Fin (real_of_int n - 1)) = Fin smax
       \<and> (\<forall>i j. i < j \<longrightarrow>
            fl_less (make_scale_fn n smin smax (Fin i)) (make_scale_fn n smin smax (Fin j)))
       \<and> (\<forall>i. make_scale_fn n smin smax (Fin i)
            = Fin (exp (ln smin + i * (ln smax - ln smin) / (real_of_int n - 1))))"
proof -
  from assms have pos: "0 < smax" and n1: "n \<noteq> 1" and d: "0 < real_of_int n - 1" by auto
  from assms pos have l: "ln smin < ln smax" by simp
  have f: "0 < (ln smax - ln smin) / (real_of_int n - 1)"
    using l d by simp
  have a: "make_scale_fn n smin smax (Fin 0) = Fin smin"
    using assms(1) pos n1 by (simp add: scale_fn_finite)
  have b: "make_scale_fn n smin smax (Fin (real_of_int n - 1)) = Fin smax"
    using assms(1) pos n1 d by (simp add: scale_fn_finite)
  have c: "fl_less (make_scale_fn n smin smax (Fin i)) (make_scale_fn n smin smax (Fin j))"
    if "i < j" for i j
  proof -
    have "(ln smax - ln smin) / (real_of_int n - 1) * i
            < (ln smax - ln smin) / (real_of_int n - 1) * j"
      using that f by (rule mult_strict_left_mono)
    then have "exp (ln smin + (ln smax - ln smin) / (real_of_int n - 1) * i)
            < exp (ln smin + (ln smax - ln smin) / (real_of_int n - 1) * j)"
      by simp
    moreover have "make_scale_fn n smin smax (Fin i)
            = Fin (exp (ln smin + (ln smax - ln smin) / (real_of_int n - 1) * i))"
      using assms(1) pos n1 by (rule scale_fn_finite)
    moreover have "make_scale_fn n smin smax (Fin j)
            = Fin (exp (ln smin + (ln smax - ln smin) / (real_of_int n - 1) * j))"
      using assms(1) pos n1 by (rule scale_fn_finite)
    ultimately show ?thesis
      by (simp only: fl_less.simps)
  qed
  have e: "make_scale_fn n smin smax (Fin i)
            = Fin (exp (ln smin + i * (ln smax - ln smin) / (real_of_int n - 1)))" for i
    using assms(1) pos n1 by (simp add: scale_fn_finite mult.commute)
  from a b c e show ?thesis by blast
qed

text \<open>
  Claim C10. The constructor has no guard on \<open>num_scales\<close>: with \<open>num_scales = 1\<close> and a
  valid slice count it returns an object, the factor is a division by zero, and the scale
  function is NaN at index \<open>0\<close>, the only index of a table with one entry (and infinite
  at every positive index when \<open>scale_min < scale_max\<close>). Among the table sizes
  \<open>num_scales \<ge> 1\<close>, every value of \<open>scale_fn\<close> is finite exactly when \<open>num_scales \<ge> 2\<close>.
\<close>

theorem single_scale_not_finite:
  assumes "0 < smin" "0 < smax"
  shows "(0 < n \<and> n dvd latent_depth \<longrightarrow>
            (\<exists>m. ConvCharm_init nets l nf latent_depth hyperprior_depth n ms 1 smin smax = Inr m
                 \<and> scale_fn m (Fin 0) = NaN
                 \<and> (smin < smax \<longrightarrow> (\<forall>i>0. scale_fn m (Fin i) = PInf))))
       \<and> (\<forall>k\<ge>1. (\<forall>i. is_finite (make_scale_fn k smin smax (Fin i))) \<longleftrightarrow> 2 \<le> k)"
proof -
  have a: "\<exists>m. ConvCharm_init nets l nf latent_depth hyperprior_depth n ms 1 smin smax = Inr m
                 \<and> scale_fn m (Fin 0) = NaN
                 \<and> (smin < smax \<longrightarrow> (\<forall>i>0. scale_fn m (Fin i) = PInf))"
    if "0 < n" "n dvd latent_depth"
    using that assms by (simp add: ConvCharm_init_div scale_fn_one scale_fn_one_pos)
  have b: "(\<forall>i. is_finite (make_scale_fn k smin smax (Fin i))) \<longleftrightarrow> 2 \<le> k" if "1 \<le> k" for k
  proof (cases "k = 1")
    case True
    have "\<not> is_finite (make_scale_fn 1 smin smax (Fin 0))"
      using assms by (simp add: scale_fn_one)
    with True show ?thesis by auto
  next
    case False
    with that have "2 \<le> k" by simp
    moreover have "is_finite (make_scale_fn k smin smax (Fin i))" for i
      using assms False by (simp add: scale_fn_finite)
    ultimately show ?thesis by simp
  qed
  from a b show ?thesis by blast
qed

section \<open>The slice loop\<close>

text \<open>
  Each pass that succeeds has run the loop from slice \<open>0\<close> with an empty
  \<open>y_hat_slices\<close>, on its own hyperprior context and with its own coding step; what is
  proved of \<open>slice_loop\<close> for every coding step holds of the three passes.
\<close>

lemma call_slices_loop:
  assumes "call_slices m x = Inr y_hat_slices"
  shows "\<exists>latent_means latent_scales y_slices rs.
           hyper_context m (cbem_quantize (hyperprior m False)
             (hyper_analysis_transform m (analysis_transform m x)))
             = Inr (latent_means, latent_scales)
         \<and> tf_split (num_slices m) (analysis_transform m x) = Inr y_slices
         \<and> slice_loop m (call_code (conditional m (num_scales m) (scale_fn m) False))
              latent_means latent_scales (spatial_shape (analysis_transform m x)) 0
              y_slices [] [] = Inr (rs, y_hat_slices)"
  using assms unfolding call_slices_def Let_def
  by (auto split: sum.splits prod.splits)

lemma compress_locals_loop:
  assumes "compress_locals m x = Inr ((x_shape, y_shape, z_shape, z_string, y_strings), y_hat_slices)"
  shows "\<exists>em latent_means latent_scales y_slices.
           em_z m = Some em
         \<and> hyper_context m (cbem_decompress em z_string z_shape) = Inr (latent_means, latent_scales)
         \<and> tf_split (num_slices m) (analysis_transform m (image_to_batch x)) = Inr y_slices
         \<and> slice_loop m (compress_code m) latent_means latent_scales y_shape 0 y_slices [] []
             = Inr (y_strings, y_hat_slices)"
  using assms unfolding compress_locals_def Let_def
  by (auto split: option.splits sum.splits prod.splits)

lemma decompress_slices_loop:
  assumes "decompress_slices m y_shape z_shape z_string y_strings = Inr y_hat_slices"
  shows "\<exists>em latent_means latent_scales rs.
           em_z m = Some em
         \<and> hyper_context m (cbem_decompress em z_string z_shape) = Inr (latent_means, latent_scales)
         \<and> slice_loop m (decompress_code m) latent_means latent_scales y_shape 0 y_strings [] []
             = Inr (rs, y_hat_slices)"
  using assms unfolding decompress_slices_def Let_def
  by (auto split: option.splits sum.splits prod.splits if_splits)

lemma slice_loop_extends:
  "slice_loop m code lm ls ysh i items rs yhs = Inr (rs', out) \<Longrightarrow>
     length out = length yhs + length items \<and> take (length yhs) out = yhs
   \<and> length rs' = length rs + length items \<and> take (length rs) rs' = rs"
proof (induction items arbitrary: i rs yhs)
  case Nil
  then show ?case by simp
next
  case (Cons item items)
  from Cons.prems obtain mu sigma r y where
    rec: "slice_loop m code lm ls ysh (Suc i) items (rs @ [r]) (yhs @ [y]) = Inr (rs', out)"
    by (auto split: sum.splits prod.splits)
  from Cons.IH [OF rec] have
    l: "length out = length (yhs @ [y]) + length items"
    and t: "take (length (yhs @ [y])) out = yhs @ [y]"
    and l': "length rs' = length (rs @ [r]) + length items"
    and t': "take (length (rs @ [r])) rs' = rs @ [r]"
    by blast+
  have "take (length yhs) (take (length (yhs @ [y])) out) = take (length yhs) (yhs @ [y])"
    by (simp only: t)
  then have a: "take (length yhs) out = yhs" by simp
  have "take (length rs) (take (length (rs @ [r])) rs') = take (length rs) (rs @ [r])"
    by (simp only: t')
  then have b: "take (length rs) rs' = rs" by simp
  from l l' a b show ?case by simp
qed

lemma slice_loop_step:
  "slice_loop m code lm ls ysh i items rs yhs = Inr (rs', out) \<Longrightarrow> j < length items \<Longrightarrow>
     \<exists>mu sigma. predict m lm ls ysh (i + j) (support_slices m (take (length yhs + j) out))
                   = Inr (mu, sigma)
               \<and> code (items ! j) sigma mu = Inr (rs' ! (length rs + j), out ! (length yhs + j))"
proof (induction items arbitrary: i rs yhs j)
  case Nil
  then show ?case by simp
next
  case (Cons item items)
  from Cons.prems(1) obtain mu sigma r y where
    p: "predict m lm ls ysh i (support_slices m yhs) = Inr (mu, sigma)"
    and c: "code item sigma mu = Inr (r, y)"
    and rec: "slice_loop m code lm ls ysh (Suc i) items (rs @ [r]) (yhs @ [y]) = Inr (rs', out)"
    by (auto split: sum.splits prod.splits)
  from slice_loop_extends [OF rec] have
    t: "take (Suc (length yhs)) out = yhs @ [y]" and t': "take (Suc (length rs)) rs' = rs @ [r]"
    and l: "length out = Suc (length yhs) + length items"
    and l': "length rs' = Suc (length rs) + length items"
    by simp_all
  show ?case
  proof (cases j)
    case 0
    have "take (length yhs) (take (Suc (length yhs)) out) = take (length yhs) (yhs @ [y])"
      by (simp only: t)
    then have a: "take (length yhs) out = yhs" by simp
    have "(take (Suc (length yhs)) out) ! length yhs = (yhs @ [y]) ! length yhs"
      by (simp only: t)
    then have b: "out ! length yhs = y" by simp
    have "(take (Suc (length rs)) rs') ! length rs = (rs @ [r]) ! length rs"
      by (simp only: t')
    then have b': "rs' ! length rs = r" by simp
    from 0 p c a b b' show ?thesis by simp
  next
    case (Suc j')
    with Cons.prems(2) have "j' < length items" by simp
    from Cons.IH [OF rec this] Suc show ?thesis by simp
  qed
qed

lemma support_slices_take:
  assumes "i \<le> length out"
  shows "support_slices m (take i out)
           = (if max_support_slices m < 0 then take i out
              else take (min (nat (max_support_slices m)) i) out)"
  using assms
  by (auto simp: support_slices_def py_slice_to_def slice_bound_def min_def)

text \<open>
  Claim C1, as the code has it. In every pass (\<open>code\<close> is the coding step of \<open>call\<close>, of
  \<open>compress\<close> or of \<open>decompress\<close>) with \<open>max_support_slices = k \<ge> 0\<close>, the support of
  slice \<open>i\<close> is the first \<open>min i k\<close> decoded slices, \<open>y_hat_slices[0 : min(i, k)]\<close>: the
  \<open>mu\<close> and \<open>sigma\<close> with which slice \<open>i\<close> is coded are predicted from exactly these.
\<close>

theorem support_is_first_slices:
  assumes "0 \<le> max_support_slices m"
      and "slice_loop m code latent_means latent_scales y_shape 0 items [] [] = Inr (rs, y_hat_slices)"
      and "i < length items"
  shows "support_slices m (take i y_hat_slices)
           = take (min i (nat (max_support_slices m))) y_hat_slices
       \<and> (\<exists>mu sigma. predict m latent_means latent_scales y_shape i
                        (take (min i (nat (max_support_slices m))) y_hat_slices) = Inr (mu, sigma)
                    \<and> code (items ! i) sigma mu = Inr (rs ! i, y_hat_slices ! i))"
proof -
  from slice_loop_extends [OF assms(2)] assms(3) have "i \<le> length y_hat_slices" by simp
  with assms(1) have s: "support_slices m (take i y_hat_slices)
           = take (min i (nat (max_support_slices m))) y_hat_slices"
    by (simp add: support_slices_take min.commute)
  from slice_loop_step [OF assms(2) assms(3)] s show ?thesis by simp
qed

lemma slice_loop_prefix:
  "slice_loop m code lm ls ysh i items rs yhs = Inr (rs1, out1) \<Longrightarrow>
   slice_loop m code lm ls ysh i items' rs yhs = Inr (rs2, out2) \<Longrightarrow>
   take n items = take n items' \<Longrightarrow>
     take (length yhs + n) out1 = take (length yhs + n) out2
   \<and> take (length rs + n) rs1 = take (length rs + n) rs2"
proof (induction items arbitrary: items' i rs yhs n)
  case Nil
  from Nil.prems(1) have e: "out1 = yhs" "rs1 = rs" by simp_all
  from slice_loop_extends [OF Nil.prems(2)] have
    t: "take (length yhs) out2 = yhs" "take (length rs) rs2 = rs" by simp_all
  show ?case
  proof (cases "items' = []")
    case True
    with Nil.prems(2) e show ?thesis by simp
  next
    case False
    with Nil.prems(3) have "n = 0" by (cases items'; cases n) simp_all
    with e t show ?thesis by simp
  qed
next
  case (Cons item items)
  show ?case
  proof (cases n)
    case 0
    from slice_loop_extends [OF Cons.prems(1)] slice_loop_extends [OF Cons.prems(2)] 0
    show ?thesis by simp
  next
    case (Suc n')
    with Cons.prems(3) obtain rest where
      i': "items' = item # rest" and tk: "take n' items = take n' rest"
      by (cases items') simp_all
    from Cons.prems(1) obtain mu sigma r y where
      p: "predict m lm ls ysh i (support_slices m yhs) = Inr (mu, sigma)"
      and c: "code item sigma mu = Inr (r, y)"
      and rec1: "slice_loop m code lm ls ysh (Suc i) items (rs @ [r]) (yhs @ [y]) = Inr (rs1, out1)"
      by (auto split: sum.splits prod.splits)
    from Cons.prems(2) i' p c have
      rec2: "slice_loop m code lm ls ysh (Suc i) rest (rs @ [r]) (yhs @ [y]) = Inr (rs2, out2)"
      by simp
    from Cons.IH [OF rec1 rec2 tk] Suc show ?thesis by simp
  qed
qed

text \<open>
  Claim C4. Conditioning is causal: two runs of the loop of a pass on the same hyperprior
  context whose inputs agree up to slice \<open>i\<close> (and differ at will after it) decode the
  same slices \<open>0\<close> to \<open>i\<close>, from the same \<open>mu\<close> and \<open>sigma\<close> for slice \<open>i\<close>.
\<close>

theorem slice_loop_causal:
  assumes "slice_loop m code latent_means latent_scales y_shape 0 items [] [] = Inr (rs, y_hat_slices)"
      and "slice_loop m code latent_means latent_scales y_shape 0 items' [] [] = Inr (rs', y_hat_slices')"
      and "take (Suc i) items = take (Suc i) items'"
  shows "take (Suc i) y_hat_slices = take (Suc i) y_hat_slices'
       \<and> predict m latent_means latent_scales y_shape i (support_slices m (take i y_hat_slices))
         = predict m latent_means latent_scales y_shape i (support_slices m (take i y_hat_slices'))"
proof -
  from slice_loop_prefix [OF assms] have
    a: "take (Suc i) y_hat_slices = take (Suc i) y_hat_slices'" by simp
  then have "take i (take (Suc i) y_hat_slices) = take i (take (Suc i) y_hat_slices')"
    by (simp only:)
  then have "take i y_hat_slices = take i y_hat_slices'" by simp
  with a show ?thesis by simp
qed

text \<open>
  In \<open>decompress\<close> the hyperprior context comes from \<open>z_string\<close> alone, so there the
  statement needs no proviso: changing the strings after slice \<open>i\<close> leaves the decoded
  slices \<open>0\<close> to \<open>i\<close> as they are.
\<close>

lemma decompress_slices_causal:
  assumes "decompress_slices m y_shape z_shape z_string y_strings = Inr y_hat_slices"
      and "decompress_slices m y_shape z_shape z_string y_strings' = Inr y_hat_slices'"
      and "take (Suc i) y_strings = take (Suc i) y_strings'"
  shows "take (Suc i) y_hat_slices = take (Suc i) y_hat_slices'"
proof -
  from decompress_slices_loop [OF assms(1)] obtain em lm ls rs where
    em: "em_z m = Some em"
    and hc: "hyper_context m (cbem_decompress em z_string z_shape) = Inr (lm, ls)"
    and l1: "slice_loop m (decompress_code m) lm ls y_shape 0 y_strings [] []
               = Inr (rs, y_hat_slices)"
    by blast
  from decompress_slices_loop [OF assms(2)] em hc obtain rs' where
    l2: "slice_loop m (decompress_code m) lm ls y_shape 0 y_strings' [] []
               = Inr (rs', y_hat_slices')"
    by auto
  from slice_loop_prefix [OF l1 l2 assms(3)] show ?thesis by simp
qed

section \<open>Compression and decompression\<close>

lemma compress_loop_decodes:
  "slice_loop m (compress_code m) lm ls ysh i items rs yhs = Inr (strs, out) \<Longrightarrow>
     \<exists>us'. slice_loop m (decompress_code m) lm ls ysh i (drop (length rs) strs) us yhs
              = Inr (us', out)"
proof (induction items arbitrary: i rs yhs us)
  case Nil
  then show ?case by simp
next
  case (Cons item items)
  from Cons.prems obtain mu sigma s y where
    p: "predict m lm ls ysh i (support_slices m yhs) = Inr (mu, sigma)"
    and c: "compress_code m item sigma mu = Inr (s, y)"
    and rec: "slice_loop m (compress_code m) lm ls ysh (Suc i) items (rs @ [s]) (yhs @ [y])
                = Inr (strs, out)"
    by (auto split: sum.splits prod.splits)
  from c obtain em where em: "em_y m = Some em"
    and s: "s = lsiem_compress em item sigma mu"
    and y: "y = lsiem_decompress em s sigma mu"
    by (auto simp: compress_code_def Let_def split: option.splits)
  from em y have d: "decompress_code m s sigma mu = Inr ((), y)"
    by (simp add: decompress_code_def)
  from slice_loop_extends [OF rec] have
    t: "take (Suc (length rs)) strs = rs @ [s]" and l: "length rs < length strs" by simp_all
  have "drop (length rs) strs = strs ! length rs # drop (Suc (length rs)) strs"
    using l by (simp add: Cons_nth_drop_Suc)
  moreover have "(take (Suc (length rs)) strs) ! length rs = (rs @ [s]) ! length rs"
    by (simp only: t)
  then have "strs ! length rs = s" by simp
  ultimately have dr: "drop (length rs) strs = s # drop (length (rs @ [s])) strs" by simp
  from Cons.IH [OF rec, of "us @ [()]"] obtain us' where
    "slice_loop m (decompress_code m) lm ls ysh (Suc i) (drop (length (rs @ [s])) strs)
        (us @ [()]) (yhs @ [y]) = Inr (us', out)" by blast
  with p d dr show ?case by simp
qed

lemma tf_split_length:
  "tf_split n t = Inr parts \<Longrightarrow> 0 < n \<and> int (length parts) = n"
  by (auto simp: tf_split_def Let_def split: if_splits)

text \<open>
  Claim C3. When \<open>compress\<close> returns a tuple, \<open>decompress\<close> on that tuple passes its
  arity check and recomputes, slice by slice, exactly the slices that \<open>compress\<close> decoded
  internally; its result is the end of \<open>decompress\<close> applied to those slices. The
  networks and entropy models are functions here, so equal inputs give equal outputs.
\<close>

theorem decompress_recomputes_compress_slices:
  assumes "compress m x = Inr (x_shape, y_shape, z_shape, z_string, y_strings)"
  shows "\<exists>y_hat_slices.
           compress_locals m x = Inr ((x_shape, y_shape, z_shape, z_string, y_strings), y_hat_slices)
         \<and> decompress_slices m y_shape z_shape z_string y_strings = Inr y_hat_slices
         \<and> decompress m x_shape y_shape z_shape z_string y_strings
             = decompress_finish m x_shape y_hat_slices"
proof -
  from assms obtain yhs where
    cl: "compress_locals m x = Inr ((x_shape, y_shape, z_shape, z_string, y_strings), yhs)"
    by (auto simp: compress_def split: sum.splits)
  define y where "y = analysis_transform m (image_to_batch x)"
  define z where "z = hyper_analysis_transform m y"
  from cl obtain em lm ls y_slices where
    em: "em_z m = Some em"
    and ysh: "y_shape = spatial_shape y"
    and zsh: "z_shape = spatial_shape z"
    and zs: "z_string = cbem_compress em z"
    and hc: "hyper_context m (cbem_decompress em z_string z_shape) = Inr (lm, ls)"
    and sp: "tf_split (num_slices m) y = Inr y_slices"
    and lp: "slice_loop m (compress_code m) lm ls y_shape 0 y_slices [] [] = Inr (y_strings, yhs)"
    unfolding compress_locals_def y_def z_def
    by (auto simp: Let_def split: option.splits sum.splits prod.splits)
  from slice_loop_extends [OF lp] have "length y_strings = length y_slices" by simp
  with tf_split_length [OF sp] have n: "int (length y_strings) = num_slices m" by simp
  from compress_loop_decodes [OF lp, of "[]"] obtain us' where
    dl: "slice_loop m (decompress_code m) lm ls y_shape 0 y_strings [] [] = Inr (us', yhs)"
    by auto
  from n em hc dl have ds: "decompress_slices m y_shape z_shape z_string y_strings = Inr yhs"
    by (simp add: decompress_slices_def)
  then have "decompress m x_shape y_shape z_shape z_string y_strings
             = decompress_finish m x_shape yhs"
    by (simp add: decompress_def)
  with cl ds show ?thesis by blast
qed

text \<open>
  Claim C9. A call of \<open>decompress\<close> with a number of slice strings other than
  \<open>num_slices\<close> fails: the body raises at its assertion, and the compiled function
  rejects the call by its input signature.
\<close>

theorem decompress_arity_checked:
  assumes "int (length y_strings) \<noteq> num_slices m"
  shows "decompress m x_shape y_shape z_shape z_string y_strings = Inl AssertionError
       \<and> decompress_compiled m x_shape y_shape z_shape z_string y_strings = Inl SignatureError"
  using assms
  by (auto simp: decompress_def decompress_slices_def decompress_compiled_def
        decompress_signature_def)

text \<open>
  With the right number of strings the compiled function is the body, so what is proved
  of \<open>decompress\<close> holds of the function that callers reach.
\<close>

lemma decompress_compiled_body:
  assumes "int (length y_strings) = num_slices m"
  shows "decompress_compiled m x_shape y_shape z_shape z_string y_strings
           = decompress m x_shape y_shape z_shape z_string y_strings"
  using assms by (auto simp: decompress_compiled_def decompress_signature_def)

section \<open>The life cycle of the entropy models\<close>

lemma tf_concat_from_error: "tf_concat_from acc ts = Inl e \<Longrightarrow> e = InvalidArgument"
  by (induction ts arbitrary: acc) (auto simp: concat2_def split: sum.splits if_splits)

lemma tf_concat_error: "tf_concat ts = Inl e \<Longrightarrow> e = InvalidArgument"
  by (cases ts) (auto dest: tf_concat_from_error)

lemma predict_error:
  "predict m lm ls ysh i support = Inl e \<Longrightarrow> e = InvalidArgument \<or> e = IndexError"
  by (auto simp: predict_def Let_def split: sum.splits if_splits dest: tf_concat_from_error)

lemma hyper_context_error: "hyper_context m z = Inl e \<Longrightarrow> e = InvalidArgument"
  by (auto simp: hyper_context_def tf_split_def Let_def split: sum.splits list.splits if_splits)

lemma tf_split_error: "tf_split n t = Inl e \<Longrightarrow> e = InvalidArgument"
  by (auto simp: tf_split_def Let_def split: if_splits)

lemma slice_loop_error:
  assumes "\<And>x sigma mu e. code x sigma mu = Inl e \<Longrightarrow> e = InvalidArgument \<or> e = IndexError"
  shows "slice_loop m code lm ls ysh i items rs yhs = Inl e \<Longrightarrow>
           e = InvalidArgument \<or> e = IndexError"
proof (induction items arbitrary: i rs yhs)
  case Nil
  then show ?case by simp
next
  case (Cons item items)
  show ?case
  proof (cases "predict m lm ls ysh i (support_slices m yhs)")
    case (Inl e')
    with Cons.prems have "e = e'" by simp
    with Inl show ?thesis by (auto dest: predict_error)
  next
    case (Inr ms)
    obtain mu sigma where ms: "ms = (mu, sigma)" by (cases ms)
    show ?thesis
    proof (cases "code item sigma mu")
      case (Inl e')
      with Cons.prems Inr ms have "e = e'" by simp
      with Inl assms show ?thesis by blast
    next
      case (Inr ry)
      obtain r y where "ry = (r, y)" by (cases ry)
      with Cons.prems \<open>predict m lm ls ysh i (support_slices m yhs) = Inr ms\<close> ms Inr
      have "slice_loop m code lm ls ysh (Suc i) items (rs @ [r]) (yhs @ [y]) = Inl e" by simp
      then show ?thesis by (rule Cons.IH)
    qed
  qed
qed

lemma decompress_finish_error: "decompress_finish m xs yhs = Inl e \<Longrightarrow> e = InvalidArgument"
  by (auto simp: decompress_finish_def split: sum.splits list.splits dest: tf_concat_error)

lemma compress_frozen_error:
  assumes "em_z m \<noteq> None" "em_y m \<noteq> None" "compress m x = Inl e"
  shows "e = InvalidArgument \<or> e = IndexError"
proof -
  from assms(2) have c: "\<And>x sigma mu e. compress_code m x sigma mu = Inl e \<Longrightarrow>
      e = InvalidArgument \<or> e = IndexError"
    by (auto simp: compress_code_def Let_def)
  have sl: "e' = InvalidArgument \<or> e' = IndexError"
    if "slice_loop m (compress_code m) lm ls ysh i items rs yhs = Inl e'"
    for lm ls ysh i items rs yhs e'
    using c that by (rule slice_loop_error)
  from assms(3) have "compress_locals m x = Inl e"
    by (auto simp: compress_def split: sum.splits)
  with assms(1) show ?thesis
    unfolding compress_locals_def Let_def
    by (auto split: option.splits sum.splits prod.splits
        dest: hyper_context_error tf_split_error sl)
qed

lemma decompress_frozen_error:
  assumes "em_z m \<noteq> None" "em_y m \<noteq> None"
    "decompress m xs ys zs zstr strs = Inl e"
  shows "e = InvalidArgument \<or> e = IndexError \<or> e = AssertionError"
proof -
  from assms(2) have c: "\<And>x sigma mu e. decompress_code m x sigma mu = Inl e \<Longrightarrow>
      e = InvalidArgument \<or> e = IndexError"
    by (auto simp: decompress_code_def)
  have sl: "e' = InvalidArgument \<or> e' = IndexError"
    if "slice_loop m (decompress_code m) lm ls ysh i items rs yhs = Inl e'"
    for lm ls ysh i items rs yhs e'
    using c that by (rule slice_loop_error)
  show ?thesis
  proof (cases "decompress_slices m ys zs zstr strs")
    case (Inl e')
    with assms(3) have "e = e'" by (simp add: decompress_def)
    with Inl assms(1) show ?thesis
      unfolding decompress_slices_def Let_def
      by (auto split: option.splits sum.splits prod.splits if_splits
          dest: hyper_context_error sl)
  next
    case (Inr yhs)
    with assms(3) have "decompress_finish m xs yhs = Inl e" by (simp add: decompress_def)
    then show ?thesis by (auto dest: decompress_finish_error)
  qed
qed

lemma ConvCharm_init_fresh:
  "ConvCharm_init nets l nf latent_depth hyperprior_depth n ms nsc smin smax = Inr m \<Longrightarrow>
     em_z m = None \<and> em_y m = None"
  by (auto simp: ConvCharm_init_def split: sum.splits)

lemma support_slices_ignores_builders:
  "support_slices (m\<lparr>num_scales := a, scale_fn := b, hyperprior := c, conditional := d\<rparr>) ys
     = support_slices m ys"
  by (simp add: support_slices_def)

lemma predict_ignores_builders:
  "predict (m\<lparr>num_scales := a, scale_fn := b, hyperprior := c, conditional := d\<rparr>)
       lm ls ysh i support
     = predict m lm ls ysh i support"
  by (simp add: predict_def context_slice_def Let_def split: sum.splits)

lemma hyper_context_ignores_builders:
  "hyper_context (m\<lparr>num_scales := a, scale_fn := b, hyperprior := c, conditional := d\<rparr>) z
     = hyper_context m z"
  by (simp add: hyper_context_def)

lemma compress_code_ignores_builders:
  "compress_code (m\<lparr>num_scales := a, scale_fn := b, hyperprior := c, conditional := d\<rparr>)
     = compress_code m"
  by (intro ext) (simp add: compress_code_def)

lemma decompress_code_ignores_builders:
  "decompress_code (m\<lparr>num_scales := a, scale_fn := b, hyperprior := c, conditional := d\<rparr>)
     = decompress_code m"
  by (intro ext) (simp add: decompress_code_def)

lemma slice_loop_ignores_builders:
  "slice_loop (m\<lparr>num_scales := a, scale_fn := b, hyperprior := c, conditional := d\<rparr>)
       code lm ls ysh i items rs yhs
     = slice_loop m code lm ls ysh i items rs yhs"
  by (induction items arbitrary: i rs yhs)
     (simp_all add: predict_ignores_builders support_slices_ignores_builders
        split: sum.splits prod.splits)

lemma compress_ignores_builders:
  "compress (m\<lparr>num_scales := a, scale_fn := b, hyperprior := c, conditional := d\<rparr>) x
     = compress m x"
  by (simp add: compress_def compress_locals_def hyper_context_ignores_builders
      compress_code_ignores_builders slice_loop_ignores_builders Let_def
      split: option.splits sum.splits prod.splits)

lemma decompress_ignores_builders:
  "decompress (m\<lparr>num_scales := a, scale_fn := b, hyperprior := c, conditional := d\<rparr>)
       xs ys zs zstr strs
     = decompress m xs ys zs zstr strs"
  by (simp add: decompress_def decompress_slices_def decompress_finish_def
      hyper_context_ignores_builders decompress_code_ignores_builders
      slice_loop_ignores_builders Let_def
      split: option.splits sum.splits prod.splits list.splits)

lemma compress_uses_stored:
  assumes ez: "em_z m = Some ez" and ey: "em_y m = Some ey"
    and c: "compress m x = Inr (cx, cy, cz, cs, cstrs)"
  shows "cs = cbem_compress ez
                (hyper_analysis_transform m (analysis_transform m (image_to_batch x)))
       \<and> (\<exists>lm ls y_slices yhs.
            hyper_context m (cbem_decompress ez cs cz) = Inr (lm, ls)
          \<and> tf_split (num_slices m) (analysis_transform m (image_to_batch x)) = Inr y_slices
          \<and> length cstrs = length y_slices \<and> length yhs = length y_slices
          \<and> (\<forall>i<length y_slices. \<exists>mu sigma.
                predict m lm ls cy i (support_slices m (take i yhs)) = Inr (mu, sigma)
              \<and> cstrs ! i = lsiem_compress ey (y_slices ! i) sigma mu
              \<and> yhs ! i = lsiem_decompress ey (cstrs ! i) sigma mu))"
proof -
  from c obtain yhs where
    cl: "compress_locals m x = Inr ((cx, cy, cz, cs, cstrs), yhs)"
    by (auto simp: compress_def split: sum.splits)
  with ez obtain lm ls y_slices where
    zs: "cs = cbem_compress ez
                (hyper_analysis_transform m (analysis_transform m (image_to_batch x)))"
    and hc: "hyper_context m (cbem_decompress ez cs cz) = Inr (lm, ls)"
    and sp: "tf_split (num_slices m) (analysis_transform m (image_to_batch x)) = Inr y_slices"
    and lp: "slice_loop m (compress_code m) lm ls cy 0 y_slices [] [] = Inr (cstrs, yhs)"
    unfolding compress_locals_def Let_def
    by (auto split: option.splits sum.splits prod.splits)
  from slice_loop_extends [OF lp] have
    len: "length cstrs = length y_slices" "length yhs = length y_slices" by simp_all
  have step: "\<exists>mu sigma.
                predict m lm ls cy i (support_slices m (take i yhs)) = Inr (mu, sigma)
              \<and> cstrs ! i = lsiem_compress ey (y_slices ! i) sigma mu
              \<and> yhs ! i = lsiem_decompress ey (cstrs ! i) sigma mu"
    if "i < length y_slices" for i
  proof -
    from slice_loop_step [OF lp that] obtain mu sigma where
      p: "predict m lm ls cy i (support_slices m (take i yhs)) = Inr (mu, sigma)"
      and cd: "compress_code m (y_slices ! i) sigma mu = Inr (cstrs ! i, yhs ! i)"
      by auto
    from cd ey have "cstrs ! i = lsiem_compress ey (y_slices ! i) sigma mu"
      and "yhs ! i = lsiem_decompress ey (cstrs ! i) sigma mu"
      by (auto simp: compress_code_def Let_def)
    with p show ?thesis by blast
  qed
  from zs hc sp len step show ?thesis by blast
qed

lemma decompress_uses_stored:
  assumes ez: "em_z m = Some ez" and ey: "em_y m = Some ey"
    and d: "decompress m xs ys zs zstr strs = Inr (img, y_hat)"
  shows "\<exists>lm ls yhs.
            hyper_context m (cbem_decompress ez zstr zs) = Inr (lm, ls)
          \<and> length yhs = length strs
          \<and> (\<forall>i<length strs. \<exists>mu sigma.
                predict m lm ls ys i (support_slices m (take i yhs)) = Inr (mu, sigma)
              \<and> yhs ! i = lsiem_decompress ey (strs ! i) sigma mu)
          \<and> decompress_finish m xs yhs = Inr (img, y_hat)"
proof -
  from d obtain yhs where
    ds: "decompress_slices m ys zs zstr strs = Inr yhs"
    and fin: "decompress_finish m xs yhs = Inr (img, y_hat)"
    by (auto simp: decompress_def split: sum.splits)
  from decompress_slices_loop [OF ds] ez obtain lm ls rs where
    hc: "hyper_context m (cbem_decompress ez zstr zs) = Inr (lm, ls)"
    and lp: "slice_loop m (decompress_code m) lm ls ys 0 strs [] [] = Inr (rs, yhs)"
    by auto
  from slice_loop_extends [OF lp] have len: "length yhs = length strs" by simp
  have step: "\<exists>mu sigma.
                predict m lm ls ys i (support_slices m (take i yhs)) = Inr (mu, sigma)
              \<and> yhs ! i = lsiem_decompress ey (strs ! i) sigma mu"
    if "i < length strs" for i
  proof -
    from slice_loop_step [OF lp that] obtain mu sigma where
      p: "predict m lm ls ys i (support_slices m (take i yhs)) = Inr (mu, sigma)"
      and cd: "decompress_code m (strs ! i) sigma mu = Inr (rs ! i, yhs ! i)"
      by auto
    from cd ey have "yhs ! i = lsiem_decompress ey (strs ! i) sigma mu"
      by (auto simp: decompress_code_def)
    with p show ?thesis by blast
  qed
  from hc len step fin show ?thesis by blast
qed

text \<open>
  Claim C6. On an object whose \<open>em_z\<close> has not been assigned, which is how the
  constructor leaves it, \<open>compress\<close> raises the \<open>AttributeError\<close> and \<open>decompress\<close> raises
  at its assertion or the \<open>AttributeError\<close>. \<open>fit\<close> assigns both entropy models, built with
  \<open>compression=True\<close> from the trained object, whatever the state before; after it
  neither \<open>compress\<close> nor \<open>decompress\<close> can raise an \<open>AttributeError\<close>. After it they code
  with the stored models and with no other: the string of \<open>z\<close> that \<open>compress\<close> returns is
  the one the stored \<open>em_z\<close> writes, the context is decoded by the stored \<open>em_z\<close>, every
  slice string is written and every slice is decoded by the stored \<open>em_y\<close>, from \<open>mu\<close> and
  \<open>sigma\<close> predicted on the slices decoded so far; and neither function depends on the
  attributes from which an entropy model could be built anew (\<open>hyperprior\<close>,
  \<open>num_scales\<close>, \<open>scale_fn\<close> and the builder of the conditional model).
\<close>

theorem coding_requires_fit:
  "(em_z m = None \<longrightarrow>
      compress m x = Inl (AttributeError ''em_z'')
    \<and> (decompress m x_shape y_shape z_shape z_string y_strings = Inl AssertionError
       \<or> decompress m x_shape y_shape z_shape z_string y_strings = Inl (AttributeError ''em_z'')))
 \<and> (\<forall>m0. ConvCharm_init nets l nf latent_depth hyperprior_depth n ms nsc smin smax = Inr m0 \<longrightarrow>
        em_z m0 = None \<and> em_y m0 = None)
 \<and> em_z (fit super_fit m) = Some (hyperprior (super_fit m) True)
 \<and> em_y (fit super_fit m)
     = Some (conditional (super_fit m) (num_scales (super_fit m)) (scale_fn (super_fit m)) True)
 \<and> (\<forall>a. compress (fit super_fit m) x \<noteq> Inl (AttributeError a))
 \<and> (\<forall>a. decompress (fit super_fit m) x_shape y_shape z_shape z_string y_strings
          \<noteq> Inl (AttributeError a))
 \<and> (\<forall>cx cy cz cs cstrs.
        compress (fit super_fit m) x = Inr (cx, cy, cz, cs, cstrs) \<longrightarrow>
          cs = cbem_compress (hyperprior (super_fit m) True)
                 (hyper_analysis_transform (fit super_fit m)
                    (analysis_transform (fit super_fit m) (image_to_batch x)))
        \<and> (\<exists>lm ls y_slices yhs.
              hyper_context (fit super_fit m)
                (cbem_decompress (hyperprior (super_fit m) True) cs cz) = Inr (lm, ls)
            \<and> tf_split (num_slices (fit super_fit m))
                (analysis_transform (fit super_fit m) (image_to_batch x)) = Inr y_slices
            \<and> length cstrs = length y_slices \<and> length yhs = length y_slices
            \<and> (\<forall>i<length y_slices. \<exists>mu sigma.
                  predict (fit super_fit m) lm ls cy i
                    (support_slices (fit super_fit m) (take i yhs)) = Inr (mu, sigma)
                \<and> cstrs ! i
                    = lsiem_compress
                        (conditional (super_fit m) (num_scales (super_fit m))
                           (scale_fn (super_fit m)) True)
                        (y_slices ! i) sigma mu
                \<and> yhs ! i
                    = lsiem_decompress
                        (conditional (super_fit m) (num_scales (super_fit m))
                           (scale_fn (super_fit m)) True)
                        (cstrs ! i) sigma mu)))
 \<and> (\<forall>img y_hat.
        decompress (fit super_fit m) x_shape y_shape z_shape z_string y_strings
          = Inr (img, y_hat) \<longrightarrow>
          (\<exists>lm ls yhs.
              hyper_context (fit super_fit m)
                (cbem_decompress (hyperprior (super_fit m) True) z_string z_shape)
                = Inr (lm, ls)
            \<and> length yhs = length y_strings
            \<and> (\<forall>i<length y_strings. \<exists>mu sigma.
                  predict (fit super_fit m) lm ls y_shape i
                    (support_slices (fit super_fit m) (take i yhs)) = Inr (mu, sigma)
                \<and> yhs ! i
                    = lsiem_decompress
                        (conditional (super_fit m) (num_scales (super_fit m))
                           (scale_fn (super_fit m)) True)
                        (y_strings ! i) sigma mu)
            \<and> decompress_finish (fit super_fit m) x_shape yhs = Inr (img, y_hat)))
 \<and> compress (m\<lparr>num_scales := nsc', scale_fn := sf', hyperprior := hp', conditional := cd'\<rparr>) x
     = compress m x
 \<and> decompress (m\<lparr>num_scales := nsc', scale_fn := sf', hyperprior := hp', conditional := cd'\<rparr>)
       x_shape y_shape z_shape z_string y_strings
     = decompress m x_shape y_shape z_shape z_string y_strings"
proof -
  have a: "compress m x = Inl (AttributeError ''em_z'')" if "em_z m = None"
    using that by (simp add: compress_def compress_locals_def Let_def)
  have b: "decompress m x_shape y_shape z_shape z_string y_strings = Inl AssertionError
       \<or> decompress m x_shape y_shape z_shape z_string y_strings = Inl (AttributeError ''em_z'')"
    if "em_z m = None"
    using that by (simp add: decompress_def decompress_slices_def)
  have c: "em_z m0 = None \<and> em_y m0 = None"
    if "ConvCharm_init nets l nf latent_depth hyperprior_depth n ms nsc smin smax = Inr m0" for m0
    using that by (rule ConvCharm_init_fresh)
  have d: "em_z (fit super_fit m) = Some (hyperprior (super_fit m) True)"
    by (simp add: fit_def Let_def)
  have e: "em_y (fit super_fit m)
     = Some (conditional (super_fit m) (num_scales (super_fit m)) (scale_fn (super_fit m)) True)"
    by (simp add: fit_def Let_def)
  from d e have ne: "em_z (fit super_fit m) \<noteq> None" "em_y (fit super_fit m) \<noteq> None"
    by simp_all
  have f: "compress (fit super_fit m) x \<noteq> Inl (AttributeError a)" for a
    using compress_frozen_error [OF ne] by fastforce
  have g: "decompress (fit super_fit m) x_shape y_shape z_shape z_string y_strings
          \<noteq> Inl (AttributeError a)" for a
    using decompress_frozen_error [OF ne] by fastforce
  note h = compress_uses_stored [OF d e]
  note i = decompress_uses_stored [OF d e]
  show ?thesis
    apply (intro conjI impI allI)
    subgoal by (rule a)
    subgoal using b by blast
    subgoal using c by blast
    subgoal using c by blast
    subgoal by (rule d)
    subgoal by (rule e)
    subgoal by (rule f)
    subgoal by (rule g)
    subgoal using h by blast
    subgoal using h by blast
    subgoal using i by blast
    subgoal by (rule compress_ignores_builders)
    subgoal by (rule decompress_ignores_builders)
    done
qed

section \<open>The reconstructed image\<close>

lemma tf_round_nearest: "\<bar>x - real_of_int (tf_round x)\<bar> \<le> 1 / 2"
  unfolding tf_round_def Let_def by (auto; linarith)

lemma saturate_cast_uint8_uint: "uint (saturate_cast_uint8 v) = max 0 (min 255 v)"
proof -
  have "0 \<le> max 0 (min 255 v)" "max 0 (min 255 v) < 256" by auto
  then have "max 0 (min 255 v) mod 256 = max 0 (min 255 v)" by simp
  then show ?thesis
    by (simp add: saturate_cast_uint8_def uint_word_of_int)
qed

lemma py_slice_to_nonneg: "0 \<le> e \<Longrightarrow> py_slice_to e xs = take (nat e) xs"
  by (simp add: py_slice_to_def slice_bound_def min_def)

lemma crop_image_nonneg:
  "0 \<le> fst hw \<Longrightarrow> 0 \<le> snd hw \<Longrightarrow>
     crop_image hw im = map (take (nat (snd hw))) (take (nat (fst hw)) im)"
  by (simp add: crop_image_def py_slice_to_nonneg)

text \<open>
  Claim C8. For shapes that are not negative, the image that \<open>decompress\<close> returns (the
  first component of its result; the second is \<open>y_hat\<close>) is the first element of the
  synthesis output cropped to \<open>x_shape\<close>: it has \<open>min x_shape[0] height\<close> rows of
  \<open>min x_shape[1] width\<close> pixels, and each byte is the nearest integer of the
  corresponding synthesis value (half to even), clipped to \<open>0 .. 255\<close>.
\<close>

theorem decompress_crops_and_saturates:
  assumes "decompress m x_shape y_shape z_shape z_string y_strings = Inr (img, y_hat)"
      and "0 \<le> fst x_shape" and "0 \<le> snd x_shape"
  shows "\<exists>y_hat_slices x_hat0 rest.
           decompress_slices m y_shape z_shape z_string y_strings = Inr y_hat_slices
         \<and> tf_concat y_hat_slices = Inr y_hat
         \<and> synthesis_transform m y_hat = x_hat0 # rest
         \<and> length img = min (nat (fst x_shape)) (length x_hat0)
         \<and> (\<forall>r<length img.
               length (img ! r) = min (nat (snd x_shape)) (length (x_hat0 ! r))
             \<and> (\<forall>c<length (img ! r).
                   length (img ! r ! c) = length (x_hat0 ! r ! c)
                 \<and> (\<forall>ch<length (img ! r ! c).
                       uint (img ! r ! c ! ch)
                         = max 0 (min 255 (tf_round (x_hat0 ! r ! c ! ch)))
                     \<and> \<bar>x_hat0 ! r ! c ! ch
                          - real_of_int (tf_round (x_hat0 ! r ! c ! ch))\<bar> \<le> 1 / 2)))"
proof -
  from assms(1) obtain yhs where
    ds: "decompress_slices m y_shape z_shape z_string y_strings = Inr yhs"
    and fin: "decompress_finish m x_shape yhs = Inr (img, y_hat)"
    by (auto simp: decompress_def split: sum.splits)
  from fin obtain x0 rest where
    cc: "tf_concat yhs = Inr y_hat"
    and syn: "synthesis_transform m y_hat = x0 # rest"
    and img: "img = map (map (map (\<lambda>v. saturate_cast_uint8 (tf_round v))))
                      (crop_image x_shape x0)"
    by (auto simp: decompress_finish_def split: sum.splits list.splits)
  from img assms(2,3) have img':
    "img = map (\<lambda>row. map (map (\<lambda>v. saturate_cast_uint8 (tf_round v)))
                          (take (nat (snd x_shape)) row))
             (take (nat (fst x_shape)) x0)"
    by (simp add: crop_image_nonneg)
  have len: "length img = min (nat (fst x_shape)) (length x0)"
    by (simp add: img' min.commute)
  have rows: "length (img ! r) = min (nat (snd x_shape)) (length (x0 ! r))
             \<and> (\<forall>c<length (img ! r).
                   length (img ! r ! c) = length (x0 ! r ! c)
                 \<and> (\<forall>ch<length (img ! r ! c).
                       uint (img ! r ! c ! ch) = max 0 (min 255 (tf_round (x0 ! r ! c ! ch)))
                     \<and> \<bar>x0 ! r ! c ! ch - real_of_int (tf_round (x0 ! r ! c ! ch))\<bar> \<le> 1 / 2))"
    if r: "r < length img" for r
  proof -
    from r len have r': "r < nat (fst x_shape)" "r < length x0" by simp_all
    then have row: "img ! r = map (map (\<lambda>v. saturate_cast_uint8 (tf_round v)))
                               (take (nat (snd x_shape)) (x0 ! r))"
      by (simp add: img')
    have l: "length (img ! r) = min (nat (snd x_shape)) (length (x0 ! r))"
      by (simp add: row min.commute)
    have px: "length (img ! r ! c) = length (x0 ! r ! c)
                 \<and> (\<forall>ch<length (img ! r ! c).
                       uint (img ! r ! c ! ch) = max 0 (min 255 (tf_round (x0 ! r ! c ! ch)))
                     \<and> \<bar>x0 ! r ! c ! ch - real_of_int (tf_round (x0 ! r ! c ! ch))\<bar> \<le> 1 / 2)"
      if c: "c < length (img ! r)" for c
    proof -
      from c l have "c < nat (snd x_shape)" "c < length (x0 ! r)" by simp_all
      then have "img ! r ! c = map (\<lambda>v. saturate_cast_uint8 (tf_round v)) (x0 ! r ! c)"
        by (simp add: row)
      then have "length (img ! r ! c) = length (x0 ! r ! c)
                 \<and> (\<forall>ch<length (img ! r ! c).
                       uint (img ! r ! c ! ch) = max 0 (min 255 (tf_round (x0 ! r ! c ! ch))))"
        by (simp add: saturate_cast_uint8_uint)
      with tf_round_nearest show ?thesis by blast
    qed
    from l px show ?thesis by blast
  qed
  from ds cc syn len rows show ?thesis by blast
qed

section \<open>The context of a slice\<close>

lemma depth_le:
  "has_depth d t \<Longrightarrow> depth t \<le> d"
  by (auto simp: has_depth_def depth_def split: list.splits)

lemma py_slice_empty:
  assumes "0 \<le> b" "length xs \<le> c" "c \<le> nat b"
  shows "py_slice b e xs = []"
  using assms by (simp add: py_slice_def Let_def slice_bound_def)

lemma has_depth_0_slice:
  assumes "list_all (list_all (list_all (\<lambda>px. length px \<le> c))) t" "0 \<le> b" "c \<le> nat b"
  shows "has_depth 0 (slice_channels b e t)"
  using assms
  by (auto simp: has_depth_def slice_channels_def list_all_iff intro!: py_slice_empty [where c = c])

lemma hyper_context_depth:
  assumes "hyper_context m z_hat = Inr (lm, ls)"
      and "has_depth d (hyper_synthesis_mean_scale_transform m z_hat)"
  shows "list_all (list_all (list_all (\<lambda>px. length px \<le> d div 2))) lm
       \<and> list_all (list_all (list_all (\<lambda>px. length px \<le> d div 2))) ls"
proof -
  define t where "t = hyper_synthesis_mean_scale_transform m z_hat"
  define sz where "sz = depth t div 2"
  from assms(2) have "depth t \<le> d" unfolding t_def by (rule depth_le)
  then have sz: "sz \<le> d div 2" unfolding sz_def by simp
  from assms(1) have
    "lm = map (map (map (\<lambda>px. take sz (drop (0 * sz) px)))) t"
    "ls = map (map (map (\<lambda>px. take sz (drop (1 * sz) px)))) t"
    unfolding hyper_context_def t_def [symmetric] tf_split_def sz_def Let_def
    by (auto split: if_splits simp: upt_conv_Cons)
  with sz show ?thesis
    by (auto simp: list_all_iff)
qed

text \<open>
  Claim C2 fails on the code. The hyper-synthesis output has \<open>latent_depth\<close> channels
  and is split in two, so \<open>latent_means\<close> and \<open>latent_scales\<close> have \<open>latent_depth / 2\<close>
  channels each, while the slice bounds \<open>slice_index * slice_size\<close> run up to
  \<open>latent_depth\<close>. For every slice that starts at or past \<open>latent_depth / 2\<close> the range is
  clipped to nothing: both context slices have no channel at all.
\<close>

theorem context_slice_empty_past_half:
  assumes "hyper_context m z_hat = Inr (latent_means, latent_scales)"
      and "has_depth d (hyper_synthesis_mean_scale_transform m z_hat)"
      and "0 \<le> slice_size m"
      and "d div 2 \<le> i * nat (slice_size m)"
  shows "has_depth 0 (context_slice m i latent_means)
       \<and> has_depth 0 (context_slice m i latent_scales)"
proof -
  from assms(3) have b: "0 \<le> int i * slice_size m" by simp
  from assms(3,4) have c: "d div 2 \<le> nat (int i * slice_size m)"
    by (simp add: nat_mult_distrib)
  from hyper_context_depth [OF assms(1,2)] have
    lm: "list_all (list_all (list_all (\<lambda>px. length px \<le> d div 2))) latent_means"
    and ls: "list_all (list_all (list_all (\<lambda>px. length px \<le> d div 2))) latent_scales"
    by simp_all
  have "has_depth 0 (context_slice m i latent_means)"
    unfolding context_slice_def Let_def using lm b c by (rule has_depth_0_slice)
  moreover have "has_depth 0 (context_slice m i latent_scales)"
    unfolding context_slice_def Let_def using ls b c by (rule has_depth_0_slice)
  ultimately show ?thesis by simp
qed

section \<open>The small instance, run\<close>

text \<open>
  The theorems above, applied to the small instance: each of the following statements is
  an instance of one of them at concrete inputs, with its hypotheses established by
  running the definitions.
\<close>

lemma replicate_numeral: "replicate (numeral k) x = x # replicate (pred_numeral k) x"
  by (simp add: numeral_eq_Suc)

lemma toy_model_div:
  "n \<noteq> 0 \<Longrightarrow> n dvd latent_depth \<Longrightarrow>
     toy_model latent_depth n k =
       Inr \<lparr> lmbda = 1 / 100,
             num_scales = 64,
             num_slices = n,
             slice_size = latent_depth div n,
             max_support_slices = k,
             scale_fn = make_scale_fn 64 (11 / 100) 256,
             analysis_transform = net_analysis toy_networks latent_depth,
             synthesis_transform = net_synthesis toy_networks latent_depth,
             hyper_analysis_transform = net_hyper_analysis toy_networks 2,
             hyper_synthesis_mean_scale_transform = net_hyper_synthesis toy_networks 2 latent_depth,
             cc_mean_transforms =
               map (\<lambda>i. net_cc_mean toy_networks i (latent_depth div n)) (py_range n),
             cc_scale_transforms =
               map (\<lambda>i. net_cc_scale toy_networks i (latent_depth div n)) (py_range n),
             hyperprior = net_hyperprior toy_networks 2,
             conditional = net_conditional toy_networks,
             em_z = None,
             em_y = None \<rparr>"
  unfolding toy_model_def by (rule ConvCharm_init_div)

lemmas toy_defs = toy_frozen_def toy_model_def ConvCharm_init_def py_floordiv_def py_range_def
     SliceTransform_init_def  toy_networks_def fit_def toy_image_def
     image_to_batch_def spatial_shape_def toy_pixelwise_def toy_cbem_def toy_lsiem_def hyper_context_def
     tf_split_def depth_def upt_conv_Cons replicate_numeral
     predict_def support_slices_def context_slice_def slice_channels_def py_slice_def py_slice_to_def
     slice_bound_def crop_spatial_def concat2_def same_spatial_def compress_code_def decompress_code_def
     decompress_finish_def crop_image_def

theorem slices_must_divide_latent_depth_witness:
  "toy_model 320 7 5 = Inl (ValueError_slices 320 7)
   \<and> num_slices (projr (toy_model 320 10 5)) = 10
   \<and> 320 = num_slices (projr (toy_model 320 10 5)) * slice_size (projr (toy_model 320 10 5))"
proof -
  have "\<not> (7::int) dvd 320" by simp
  with slices_must_divide_latent_depth [of 7 320 toy_networks "1 / 100" 192 2 5 64 "11 / 100" 256]
  have a: "toy_model 320 7 5 = Inl (ValueError_slices 320 7)"
    by (simp add: toy_model_def)
  obtain m where m: "toy_model 320 10 5 = Inr m"
    by (simp add: toy_model_div)
  then have "ConvCharm_init toy_networks (1 / 100) 192 320 2 10 5 64 (11 / 100) 256 = Inr m"
    by (simp only: toy_model_def)
  moreover have p: "(0::int) \<le> 10" by simp
  note slices_must_divide_latent_depth [OF p, of 320 toy_networks "1 / 100" 192 2 5 64 "11 / 100" 256]
  ultimately have "num_slices m = 10 \<and> 320 = num_slices m * slice_size m"
    by blast
  with m a show ?thesis by (simp only: sum.sel)
qed

theorem scale_fn_increasing_witness:
  "make_scale_fn 64 (11/100) 256 (Fin 0) = Fin (11/100)
   \<and> make_scale_fn 64 (11/100) 256 (Fin 63) = Fin 256
   \<and> fl_less (make_scale_fn 64 (11/100) 256 (Fin 0)) (make_scale_fn 64 (11/100) 256 (Fin 1))"
proof -
  have h: "(0::real) < 11/100" "(11/100::real) < 256" "(2::int) \<le> 64" by simp_all
  note w = scale_fn_increasing [OF h]
  from w have a: "make_scale_fn 64 (11/100) 256 (Fin 0) = Fin (11/100)" by blast
  from w have "make_scale_fn 64 (11/100) 256 (Fin (real_of_int 64 - 1)) = Fin 256" by blast
  then have b: "make_scale_fn 64 (11/100) 256 (Fin 63) = Fin 256" by simp
  from w have "\<forall>i j. i < j \<longrightarrow>
      fl_less (make_scale_fn 64 (11/100) 256 (Fin i)) (make_scale_fn 64 (11/100) 256 (Fin j))"
    by blast
  then have "(0::real) < 1 \<longrightarrow>
      fl_less (make_scale_fn 64 (11/100) 256 (Fin 0)) (make_scale_fn 64 (11/100) 256 (Fin 1))"
    by blast
  then have c: "fl_less (make_scale_fn 64 (11/100) 256 (Fin 0))
                  (make_scale_fn 64 (11/100) 256 (Fin 1))"
    by simp
  from a b c show ?thesis by blast
qed

theorem single_scale_not_finite_witness:
  "scale_fn (projr (ConvCharm_init toy_networks (1 / 100) 192 320 2 10 5 1 (11 / 100) 256)) (Fin 0)
     = NaN
   \<and> scale_fn (projr (ConvCharm_init toy_networks (1 / 100) 192 320 2 10 5 1 (11 / 100) 256)) (Fin 1)
     = PInf
   \<and> \<not> (\<forall>i. is_finite (make_scale_fn 1 (11 / 100) 256 (Fin i)))
   \<and> (\<forall>i. is_finite (make_scale_fn 64 (11 / 100) 256 (Fin i)))"
proof -
  have h: "(0::real) < 11 / 100" "(0::real) < 256" by simp_all
  note w = single_scale_not_finite [OF h, of 10 320 toy_networks "1 / 100" 192 2 5]
  from w obtain m where
    m: "ConvCharm_init toy_networks (1 / 100) 192 320 2 10 5 1 (11 / 100) 256 = Inr m"
    and z: "scale_fn m (Fin 0) = NaN"
    and p: "(11 / 100 :: real) < 256 \<longrightarrow> (\<forall>i>0. scale_fn m (Fin i) = PInf)"
    by auto
  from p have "scale_fn m (Fin 1) = PInf" by simp
  with m z have a: "scale_fn (projr (ConvCharm_init toy_networks (1 / 100) 192 320 2 10 5 1 (11 / 100) 256)) (Fin 0)
     = NaN
   \<and> scale_fn (projr (ConvCharm_init toy_networks (1 / 100) 192 320 2 10 5 1 (11 / 100) 256)) (Fin 1)
     = PInf" by simp
  from w have k: "\<forall>k\<ge>1. (\<forall>i. is_finite (make_scale_fn k (11 / 100) 256 (Fin i))) \<longleftrightarrow> 2 \<le> k"
    by blast
  from k have "(\<forall>i. is_finite (make_scale_fn 1 (11 / 100) 256 (Fin i))) \<longleftrightarrow> (2::int) \<le> 1"
    by (simp del: is_finite.simps)
  then have b: "\<not> (\<forall>i. is_finite (make_scale_fn 1 (11 / 100) 256 (Fin i)))" by simp
  from k have "(1::int) \<le> 64 \<longrightarrow>
     ((\<forall>i. is_finite (make_scale_fn 64 (11 / 100) 256 (Fin i))) \<longleftrightarrow> (2::int) \<le> 64)"
    by blast
  then have c: "\<forall>i. is_finite (make_scale_fn 64 (11 / 100) 256 (Fin i))" by simp
  from a b c show ?thesis by blast
qed

text \<open>
  Claim C1 as the spec states it fails: with ten slices and \<open>max_support_slices = 3\<close>, the
  support of slice \<open>9\<close>, computed from the nine slices decoded before it, is slices \<open>0\<close>,
  \<open>1\<close> and \<open>2\<close>, not slices \<open>6\<close>, \<open>7\<close> and \<open>8\<close>. (Slice \<open>j\<close> is here the tensor with
  the single entry \<open>j\<close>.)
\<close>

theorem support_not_most_recent:
  "support_slices (toy_frozen 320 10 3)
       [[[[[0]]]], [[[[1]]]], [[[[2]]]], [[[[3]]]], [[[[4]]]], [[[[5]]]], [[[[6]]]], [[[[7]]]],
        [[[[8::real]]]]]
     = [[[[[0]]]], [[[[1]]]], [[[[2]]]]]
   \<and> support_slices (toy_frozen 320 10 3)
       [[[[[0]]]], [[[[1]]]], [[[[2]]]], [[[[3]]]], [[[[4]]]], [[[[5]]]], [[[[6]]]], [[[[7]]]],
        [[[[8::real]]]]]
     \<noteq> [[[[[6]]]], [[[[7]]]], [[[[8]]]]]"
  by (simp add: toy_frozen_def toy_model_div fit_def support_slices_def py_slice_to_def
      slice_bound_def)

theorem slice_loop_causal_witness:
  "take (Suc 0) [[[[[6, 6]]]], [[[[15, 15]]]]] = take (Suc 0) [[[[[6, 6]]]], [[[[13, 13::real]]]]]
   \<and> predict (toy_frozen 4 2 1) [[[[2, 2]]]] [[[[2, 2]]]] (1, 1) 0
        (support_slices (toy_frozen 4 2 1) (take 0 [[[[[6, 6]]]], [[[[15, 15]]]]]))
     = predict (toy_frozen 4 2 1) [[[[2, 2]]]] [[[[2, 2]]]] (1, 1) 0
        (support_slices (toy_frozen 4 2 1) (take 0 [[[[[6, 6]]]], [[[[13, 13]]]]]))"
proof -
  have run1: "slice_loop (toy_frozen 4 2 1) (decompress_code (toy_frozen 4 2 1))
               [[[[2, 2]]]] [[[[2, 2]]]] (1, 1) 0 [''yy'', ''yyy''] [] []
             = Inr ([(), ()], [[[[[6, 6]]]], [[[[15, 15]]]]])"
    by (simp add: toy_defs)
  have run2: "slice_loop (toy_frozen 4 2 1) (decompress_code (toy_frozen 4 2 1))
               [[[[2, 2]]]] [[[[2, 2]]]] (1, 1) 0 [''yy'', ''y''] [] []
             = Inr ([(), ()], [[[[[6, 6]]]], [[[[13, 13]]]]])"
    by (simp add: toy_defs)
  have p: "take (Suc 0) [''yy'', ''yyy''] = take (Suc 0) [''yy'', ''y'']" by simp
  from slice_loop_causal [OF run1 run2 p] show ?thesis .
qed

theorem decompress_recomputes_compress_slices_witness:
  "decompress_slices (toy_frozen 4 2 1) (1, 1) (1, 1) ''z'' [''yy'', ''yy'']
     = Inr [[[[[6, 6]]]], [[[[14, 14]]]]]
   \<and> decompress (toy_frozen 4 2 1) (1, 1) (1, 1) (1, 1) ''z'' [''yy'', ''yy'']
     = decompress_finish (toy_frozen 4 2 1) (1, 1) [[[[[6, 6]]]], [[[[14, 14]]]]]"
proof -
  have cl: "compress_locals (toy_frozen 4 2 1) toy_image
              = Inr (((1, 1), (1, 1), (1, 1), ''z'', [''yy'', ''yy'']),
                     [[[[[6, 6]]]], [[[[14, 14]]]]])"
    by (simp add: compress_locals_def toy_defs Let_def)
  then have c: "compress (toy_frozen 4 2 1) toy_image
              = Inr ((1, 1), (1, 1), (1, 1), ''z'', [''yy'', ''yy''])"
    by (simp add: compress_def)
  from decompress_recomputes_compress_slices [OF c] cl show ?thesis
    by simp
qed

theorem decompress_arity_checked_witness:
  "decompress (toy_frozen 4 2 1) (1, 1) (1, 1) (1, 1) ''z'' [''yy'', ''yy'', ''yy'']
     = Inl AssertionError
   \<and> decompress_compiled (toy_frozen 4 2 1) (1, 1) (1, 1) (1, 1) ''z'' [''yy'', ''yy'', ''yy'']
     = Inl SignatureError"
proof -
  have "int (length [''yy'', ''yy'', ''yy'']) \<noteq> num_slices (toy_frozen 4 2 1)"
    by (simp add: toy_frozen_def toy_model_div fit_def)
  then show ?thesis by (rule decompress_arity_checked)
qed

lemma toy_hyper_synthesis_320:
  "hyper_synthesis_mean_scale_transform (toy_frozen 320 10 5) [[[[1, 1]]]] = [[[replicate 320 2]]]"
  by (simp add: toy_frozen_def toy_model_div fit_def toy_networks_def toy_pixelwise_def)

theorem context_slice_empty_past_half_witness:
  "has_depth 0 (context_slice (toy_frozen 320 10 5) 5 [[[replicate 160 2]]])
   \<and> has_depth 0 (context_slice (toy_frozen 320 10 5) 5 [[[replicate 160 2]]])"
proof -
  have hc: "hyper_context (toy_frozen 320 10 5) [[[[1, 1]]]]
              = Inr ([[[replicate 160 2]]], [[[replicate 160 2]]])"
    by (simp add: hyper_context_def toy_hyper_synthesis_320 tf_split_def depth_def upt_conv_Cons)
  have d: "has_depth 320 (hyper_synthesis_mean_scale_transform (toy_frozen 320 10 5) [[[[1, 1]]]])"
    by (simp add: toy_hyper_synthesis_320 has_depth_def)
  have ss: "slice_size (toy_frozen 320 10 5) = 32"
    by (simp add: toy_frozen_def toy_model_div fit_def)
  have s: "0 \<le> slice_size (toy_frozen 320 10 5)" by (simp add: ss)
  have i: "320 div 2 \<le> 5 * nat (slice_size (toy_frozen 320 10 5))" by (simp add: ss)
  from context_slice_empty_past_half [OF hc d s i] show ?thesis .
qed

text \<open>
  The support at a slice where the bound cuts: three slices with
  \<open>max_support_slices = 1\<close>. Slice \<open>2\<close> is predicted from slice \<open>0\<close> alone, not from
  slice \<open>1\<close>, the most recent one, and not from both.
\<close>

theorem support_is_first_slices_witness:
  "support_slices (toy_frozen 6 3 1)
       (take 2 [[[[[6, 6]]]], [[[[17, 17]]]], [[[[13, 13 :: real]]]]]) = [[[[[6, 6]]]]]
   \<and> support_slices (toy_frozen 6 3 1)
       (take 2 [[[[[6, 6]]]], [[[[17, 17]]]], [[[[13, 13 :: real]]]]]) \<noteq> [[[[[17, 17]]]]]
   \<and> (\<exists>mu sigma. predict (toy_frozen 6 3 1) [[[[2, 2, 2]]]] [[[[2, 2, 2]]]] (1, 1) 2
                      [[[[[6, 6]]]]] = Inr (mu, sigma)
                \<and> decompress_code (toy_frozen 6 3 1) ''y'' sigma mu = Inr ((), [[[[13, 13]]]]))"
proof -
  have k1: "max_support_slices (toy_frozen 6 3 1) = 1"
    by (simp add: toy_frozen_def toy_model_div fit_def)
  then have k: "0 \<le> max_support_slices (toy_frozen 6 3 1)" by simp
  have run: "slice_loop (toy_frozen 6 3 1) (decompress_code (toy_frozen 6 3 1))
               [[[[2, 2, 2]]]] [[[[2, 2, 2]]]] (1, 1) 0 [''yy'', ''yyy'', ''y''] [] []
             = Inr ([(), (), ()], [[[[[6, 6]]]], [[[[17, 17]]]], [[[[13, 13]]]]])"
    by (simp add: toy_defs)
  have i: "2 < length [''yy'', ''yyy'', ''y'']" by simp
  from support_is_first_slices [OF k run i] show ?thesis
    by (simp add: k1)
qed

text \<open>
  The life cycle on the instance. The fresh object raises; the frozen object writes the
  strings and decodes the slices of the models stored by \<open>fit\<close>, which differ from what
  the models built with \<open>compression=False\<close> would give; and the object whose prior and
  scale table were changed after \<open>fit\<close> still codes as the frozen one.
\<close>

lemma toy_fresh:
  "toy_model 4 2 1 = Inr (projr (toy_model 4 2 1))"
  "num_slices (projr (toy_model 4 2 1)) = 2"
  "hyperprior (projr (toy_model 4 2 1)) True = toy_cbem 2 True"
  "conditional (projr (toy_model 4 2 1)) (num_scales (projr (toy_model 4 2 1)))
     (scale_fn (projr (toy_model 4 2 1))) True = toy_lsiem True"
  by (simp_all add: toy_model_div toy_networks_def)

lemma toy_frozen_compress:
  "compress (toy_frozen 4 2 1) toy_image
     = Inr ((1, 1), (1, 1), (1, 1), ''z'', [''yy'', ''yy''])"
  by (simp add: compress_def compress_locals_def toy_defs Let_def)

lemma toy_frozen_decompress:
  "decompress (toy_frozen 4 2 1) (1, 1) (1, 1) (1, 1) ''z'' [''yy'', ''yy'']
     = Inr ([[[40, 40, 40]]], [[[[6, 6, 14, 14]]]])"
  apply (simp add: decompress_def decompress_slices_def toy_defs)
  apply (simp add: tf_round_def saturate_cast_uint8_def)
  done

lemma toy_frozen_latent:
  "hyper_analysis_transform (toy_frozen 4 2 1)
     (analysis_transform (toy_frozen 4 2 1) (image_to_batch toy_image)) = [[[[24, 24]]]]"
  by (simp add: toy_defs)

lemma toy_frozen_context:
  "hyper_context (toy_frozen 4 2 1) (cbem_decompress (toy_cbem 2 True) ''z'' (1, 1))
     = Inr ([[[[2, 2]]]], [[[[2, 2]]]])"
  by (simp add: toy_defs)

lemma toy_frozen_predict0:
  "predict (toy_frozen 4 2 1) [[[[2, 2]]]] [[[[2, 2]]]] (1, 1) 0
     (support_slices (toy_frozen 4 2 1) []) = Inr ([[[[4, 4]]]], [[[[0, 0]]]])"
  by (simp add: toy_defs)

lemma toy_stale_built_anew:
  "cbem_compress (hyperprior toy_stale True) [[[[24, 24]]]] = ''zz''"
  "lsiem_decompress (conditional toy_stale (num_scales toy_stale) (scale_fn toy_stale) True)
     ''yy'' [[[[0, 0]]]] [[[[4, 4]]]] = [[[[4, 4]]]]"
  by (simp_all add: toy_stale_def toy_cbem_def toy_lsiem_def toy_pixelwise_def)

theorem coding_requires_fit_witness:
  "compress (projr (toy_model 4 2 1)) toy_image = Inl (AttributeError ''em_z'')
   \<and> decompress (projr (toy_model 4 2 1)) (1, 1) (1, 1) (1, 1) ''z'' [''yy'', ''yy'']
       = Inl (AttributeError ''em_z'')
   \<and> em_z (projr (toy_model 4 2 1)) = None
   \<and> em_z (toy_frozen 4 2 1) = Some (toy_cbem 2 True)
   \<and> em_y (toy_frozen 4 2 1) = Some (toy_lsiem True)
   \<and> compress (toy_frozen 4 2 1) toy_image
       = Inr ((1, 1), (1, 1), (1, 1), ''z'', [''yy'', ''yy''])
   \<and> ''z'' = cbem_compress (toy_cbem 2 True) [[[[24, 24]]]]
   \<and> ''z'' \<noteq> cbem_compress (toy_cbem 2 False) [[[[24, 24]]]]
   \<and> decompress (toy_frozen 4 2 1) (1, 1) (1, 1) (1, 1) ''z'' [''yy'', ''yy'']
       = Inr ([[[40, 40, 40]]], [[[[6, 6, 14, 14]]]])
   \<and> (\<exists>yhs. yhs ! 0 = lsiem_decompress (toy_lsiem True) ''yy'' [[[[0, 0]]]] [[[[4, 4]]]]
            \<and> yhs ! 0 \<noteq> lsiem_decompress (toy_lsiem False) ''yy'' [[[[0, 0]]]] [[[[4, 4]]]]
            \<and> decompress_finish (toy_frozen 4 2 1) (1, 1) yhs
                = Inr ([[[40, 40, 40]]], [[[[6, 6, 14, 14]]]]))
   \<and> compress toy_stale toy_image = Inr ((1, 1), (1, 1), (1, 1), ''z'', [''yy'', ''yy''])
   \<and> decompress toy_stale (1, 1) (1, 1) (1, 1) ''z'' [''yy'', ''yy'']
       = Inr ([[[40, 40, 40]]], [[[[6, 6, 14, 14]]]])
   \<and> cbem_compress (hyperprior toy_stale True) [[[[24, 24]]]] = ''zz''"
proof -
  define m where "m = projr (toy_model 4 2 1)"
  have m: "toy_model 4 2 1 = Inr m" and n: "num_slices m = 2"
    and hp: "hyperprior m True = toy_cbem 2 True"
    and cd: "conditional m (num_scales m) (scale_fn m) True = toy_lsiem True"
    unfolding m_def by (rule toy_fresh)+
  have fr: "fit (\<lambda>m. m) m = toy_frozen 4 2 1"
    by (simp add: toy_frozen_def m_def)
  from m have i: "ConvCharm_init toy_networks (1 / 100) 192 4 2 2 1 64 (11 / 100) 256 = Inr m"
    by (simp only: toy_model_def)
  note w = coding_requires_fit [where x = toy_image and x_shape = "(1, 1)"
      and y_shape = "(1, 1)" and z_shape = "(1, 1)" and z_string = "''z''"
      and y_strings = "[''yy'', ''yy'']" and nets = toy_networks and l = "1 / 100"
      and nf = 192 and latent_depth = 4 and hyperprior_depth = 2 and n = 2 and ms = 1
      and nsc = 64 and smin = "11 / 100" and smax = 256 and super_fit = "\<lambda>m. m"
      and nsc' = 1 and sf' = "make_scale_fn 1 (11 / 100) 256"
      and hp' = "\<lambda>c. toy_cbem 2 (\<not> c)" and cd' = "\<lambda>n f c. toy_lsiem (\<not> c)" and m = m,
      unfolded fr hp cd]
  note w7 = w [THEN conjunct2, THEN conjunct2, THEN conjunct2, THEN conjunct2,
      THEN conjunct2, THEN conjunct2, THEN conjunct1, rule_format, OF toy_frozen_compress]
  note w8 = w [THEN conjunct2, THEN conjunct2, THEN conjunct2, THEN conjunct2,
      THEN conjunct2, THEN conjunct2, THEN conjunct2, THEN conjunct1, rule_format,
      OF toy_frozen_decompress]
  from w i have z: "em_z m = None" by blast
  with w have c: "compress m toy_image = Inl (AttributeError ''em_z'')" by blast
  from w z have "decompress m (1, 1) (1, 1) (1, 1) ''z'' [''yy'', ''yy''] = Inl AssertionError
     \<or> decompress m (1, 1) (1, 1) (1, 1) ''z'' [''yy'', ''yy''] = Inl (AttributeError ''em_z'')"
    by blast
  moreover have "decompress m (1, 1) (1, 1) (1, 1) ''z'' [''yy'', ''yy''] \<noteq> Inl AssertionError"
    using z n by (simp add: decompress_def decompress_slices_def)
  ultimately have d: "decompress m (1, 1) (1, 1) (1, 1) ''z'' [''yy'', ''yy'']
       = Inl (AttributeError ''em_z'')" by blast
  from w have f: "em_z (toy_frozen 4 2 1) = Some (toy_cbem 2 True)"
    and f': "em_y (toy_frozen 4 2 1) = Some (toy_lsiem True)"
    by blast+
  from w7 have
    "''z'' = cbem_compress (toy_cbem 2 True)
               (hyper_analysis_transform (toy_frozen 4 2 1)
                  (analysis_transform (toy_frozen 4 2 1) (image_to_batch toy_image)))"
    by blast
  then have zs: "''z'' = cbem_compress (toy_cbem 2 True) [[[[24, 24]]]]"
    by (simp only: toy_frozen_latent)
  have zn: "''z'' \<noteq> cbem_compress (toy_cbem 2 False) [[[[24, 24]]]]"
    by (simp add: toy_cbem_def)
  from w8 obtain lm ls yhs where
    hc: "hyper_context (toy_frozen 4 2 1) (cbem_decompress (toy_cbem 2 True) ''z'' (1, 1))
           = Inr (lm, ls)"
    and st: "\<forall>i<length [''yy'', ''yy'']. \<exists>mu sigma.
               predict (toy_frozen 4 2 1) lm ls (1, 1) i
                 (support_slices (toy_frozen 4 2 1) (take i yhs)) = Inr (mu, sigma)
             \<and> yhs ! i = lsiem_decompress (toy_lsiem True) ([''yy'', ''yy''] ! i) sigma mu"
    and fin: "decompress_finish (toy_frozen 4 2 1) (1, 1) yhs
                = Inr ([[[40, 40, 40]]], [[[[6, 6, 14, 14]]]])"
    by blast
  from hc have lm: "lm = [[[[2, 2]]]]" "ls = [[[[2, 2]]]]"
    by (auto simp: toy_frozen_context)
  have "(0::nat) < length [''yy'', ''yy'']" by simp
  with st have "\<exists>mu sigma.
               predict (toy_frozen 4 2 1) lm ls (1, 1) 0
                 (support_slices (toy_frozen 4 2 1) (take 0 yhs)) = Inr (mu, sigma)
             \<and> yhs ! 0 = lsiem_decompress (toy_lsiem True) ([''yy'', ''yy''] ! 0) sigma mu"
    by blast
  then have y0: "yhs ! 0 = lsiem_decompress (toy_lsiem True) ''yy'' [[[[0, 0]]]] [[[[4, 4]]]]"
    by (auto simp: lm toy_frozen_predict0)
  then have y0n: "yhs ! 0 \<noteq> lsiem_decompress (toy_lsiem False) ''yy'' [[[[0, 0]]]] [[[[4, 4]]]]"
    by (simp add: toy_lsiem_def toy_pixelwise_def)
  from y0 y0n fin have ex: "\<exists>yhs. yhs ! 0 = lsiem_decompress (toy_lsiem True) ''yy'' [[[[0, 0]]]] [[[[4, 4]]]]
            \<and> yhs ! 0 \<noteq> lsiem_decompress (toy_lsiem False) ''yy'' [[[[0, 0]]]] [[[[4, 4]]]]
            \<and> decompress_finish (toy_frozen 4 2 1) (1, 1) yhs
                = Inr ([[[40, 40, 40]]], [[[[6, 6, 14, 14]]]])"
    by blast
  note v = coding_requires_fit [where x = toy_image and x_shape = "(1, 1)"
      and y_shape = "(1, 1)" and z_shape = "(1, 1)" and z_string = "''z''"
      and y_strings = "[''yy'', ''yy'']" and nets = toy_networks and l = "1 / 100"
      and nf = 192 and latent_depth = 4 and hyperprior_depth = 2 and n = 2 and ms = 1
      and nsc = 64 and smin = "11 / 100" and smax = 256 and super_fit = "\<lambda>m. m"
      and nsc' = 1 and sf' = "make_scale_fn 1 (11 / 100) 256"
      and hp' = "\<lambda>c. toy_cbem 2 (\<not> c)" and cd' = "\<lambda>n f c. toy_lsiem (\<not> c)" and m = "toy_frozen 4 2 1",
      folded toy_stale_def]
  note v9 = v [THEN conjunct2, THEN conjunct2, THEN conjunct2, THEN conjunct2,
      THEN conjunct2, THEN conjunct2, THEN conjunct2, THEN conjunct2, THEN conjunct1]
  note v10 = v [THEN conjunct2, THEN conjunct2, THEN conjunct2, THEN conjunct2,
      THEN conjunct2, THEN conjunct2, THEN conjunct2, THEN conjunct2, THEN conjunct2]
  from v9 have "compress toy_stale toy_image = compress (toy_frozen 4 2 1) toy_image"
    by blast
  then have sc: "compress toy_stale toy_image
                   = Inr ((1, 1), (1, 1), (1, 1), ''z'', [''yy'', ''yy''])"
    by (simp only: toy_frozen_compress)
  from v10 have "decompress toy_stale (1, 1) (1, 1) (1, 1) ''z'' [''yy'', ''yy'']
                 = decompress (toy_frozen 4 2 1) (1, 1) (1, 1) (1, 1) ''z'' [''yy'', ''yy'']"
    by blast
  then have sd: "decompress toy_stale (1, 1) (1, 1) (1, 1) ''z'' [''yy'', ''yy'']
                   = Inr ([[[40, 40, 40]]], [[[[6, 6, 14, 14]]]])"
    by (simp only: toy_frozen_decompress)
  from z c d f f' toy_frozen_compress zs zn toy_frozen_decompress ex sc sd
    toy_stale_built_anew(1)
  show ?thesis unfolding m_def by (intro conjI)
qed

text \<open>
  The end of \<open>decompress\<close> on a synthesis output of two rows and three columns with
  \<open>x_shape = (1, 2)\<close>: one row and two columns are kept; \<open>21 / 2\<close> is rounded to the even
  \<open>10\<close> and \<open>87 / 2\<close> to the even \<open>44\<close>, \<open>21 / 4\<close> down to \<open>5\<close> and \<open>427 / 10\<close> up to
  \<open>43\<close>; \<open>420\<close> is clipped to \<open>255\<close> and \<open>- 42\<close> to \<open>0\<close>.
\<close>

lemma toy_upsampled_run:
  "decompress toy_upsampled (1, 2) (1, 1) (1, 1) ''z'' [''yy'', ''yyy'']
     = Inr ([[[10, 255, 0], [44, 5, 43]]], [[[[6, 6, 15, 15]]]])"
  apply (simp add: decompress_def decompress_slices_def toy_upsampled_def toy_upsample_def toy_defs)
  apply (simp add: tf_round_def saturate_cast_uint8_def)
  done

lemma toy_upsampled_synthesis:
  "synthesis_transform toy_upsampled [[[[6, 6, 15, 15]]]]
     = [[[[21 / 2, 420, - 42], [87 / 2, 21 / 4, 427 / 10], [42, 42, 42]],
         [[0, 0, 0], [0, 0, 0], [0, 0, 0]]]]"
  by (simp add: toy_upsampled_def toy_upsample_def)

theorem decompress_crops_and_saturates_witness:
  "decompress toy_upsampled (1, 2) (1, 1) (1, 1) ''z'' [''yy'', ''yyy'']
     = Inr ([[[10, 255, 0], [44, 5, 43]]], [[[[6, 6, 15, 15]]]])
   \<and> synthesis_transform toy_upsampled [[[[6, 6, 15, 15]]]]
     = [[[[21 / 2, 420, - 42], [87 / 2, 21 / 4, 427 / 10], [42, 42, 42]],
         [[0, 0, 0], [0, 0, 0], [0, 0, 0]]]]
   \<and> length [[[10, 255, 0], [44, 5, 43 :: 8 word]]]
       = min (nat (fst (1 :: int, 2 :: int)))
           (length [[[21 / 2, 420, - 42], [87 / 2, 21 / 4, 427 / 10], [42, 42, 42 :: real]],
                    [[0, 0, 0], [0, 0, 0], [0, 0, 0]]])
   \<and> length ([[[10, 255, 0], [44, 5, 43 :: 8 word]]] ! 0)
       = min (nat (snd (1 :: int, 2 :: int)))
           (length [[21 / 2, 420, - 42], [87 / 2, 21 / 4, 427 / 10], [42, 42, 42 :: real]])
   \<and> uint (10 :: 8 word) = max 0 (min 255 (tf_round (21 / 2)))
   \<and> uint (255 :: 8 word) = max 0 (min 255 (tf_round 420))
   \<and> uint (0 :: 8 word) = max 0 (min 255 (tf_round (- 42)))
   \<and> uint (44 :: 8 word) = max 0 (min 255 (tf_round (87 / 2)))
   \<and> uint (5 :: 8 word) = max 0 (min 255 (tf_round (21 / 4)))
   \<and> uint (43 :: 8 word) = max 0 (min 255 (tf_round (427 / 10)))"
proof -
  define img :: image where "img = [[[10, 255, 0], [44, 5, 43]]]"
  define X :: "real list list list" where
    "X = [[[21 / 2, 420, - 42], [87 / 2, 21 / 4, 427 / 10], [42, 42, 42]],
          [[0, 0, 0], [0, 0, 0], [0, 0, 0]]]"
  have run: "decompress toy_upsampled (1, 2) (1, 1) (1, 1) ''z'' [''yy'', ''yyy'']
               = Inr (img, [[[[6, 6, 15, 15]]]])"
    unfolding img_def by (rule toy_upsampled_run)
  have syn: "synthesis_transform toy_upsampled [[[[6, 6, 15, 15]]]] = [X]"
    unfolding X_def by (rule toy_upsampled_synthesis)
  have h: "0 \<le> fst (1 :: int, 2 :: int)" "0 \<le> snd (1 :: int, 2 :: int)" by simp_all
  from decompress_crops_and_saturates [OF run h] obtain x_hat0 rest where
    s: "synthesis_transform toy_upsampled [[[[6, 6, 15, 15]]]] = x_hat0 # rest"
    and l: "length img = min (nat (fst (1 :: int, 2 :: int))) (length x_hat0)"
    and r: "\<forall>r<length img.
               length (img ! r) = min (nat (snd (1 :: int, 2 :: int))) (length (x_hat0 ! r))
             \<and> (\<forall>c<length (img ! r).
                   length (img ! r ! c) = length (x_hat0 ! r ! c)
                 \<and> (\<forall>ch<length (img ! r ! c).
                       uint (img ! r ! c ! ch)
                         = max 0 (min 255 (tf_round (x_hat0 ! r ! c ! ch)))
                     \<and> \<bar>x_hat0 ! r ! c ! ch
                          - real_of_int (tf_round (x_hat0 ! r ! c ! ch))\<bar> \<le> 1 / 2))"
    by blast
  from s syn have x: "x_hat0 = X" by simp
  have i0: "0 < length img" by (simp add: img_def)
  from r i0 have r0:
    "length (img ! 0) = min (nat (snd (1 :: int, 2 :: int))) (length (x_hat0 ! 0))"
    and c0: "\<forall>c<length (img ! 0). \<forall>ch<length (img ! 0 ! c).
                uint (img ! 0 ! c ! ch) = max 0 (min 255 (tf_round (x_hat0 ! 0 ! c ! ch)))"
    by blast+
  have px: "uint (img ! 0 ! c ! ch) = max 0 (min 255 (tf_round (X ! 0 ! c ! ch)))"
    if "c < 2" "ch < 3" for c ch
  proof -
    from that(1) have "c = 0 \<or> c = 1" by auto
    with that have "c < length (img ! 0)" "ch < length (img ! 0 ! c)"
      by (auto simp: img_def)
    with c0 x show ?thesis by blast
  qed
  have p00: "uint (10 :: 8 word) = max 0 (min 255 (tf_round (21 / 2)))"
    using px [of 0 0] by (simp add: img_def X_def)
  have p01: "uint (255 :: 8 word) = max 0 (min 255 (tf_round 420))"
    using px [of 0 1] by (simp add: img_def X_def)
  have p02: "uint (0 :: 8 word) = max 0 (min 255 (tf_round (- 42)))"
    using px [of 0 2] by (simp add: img_def X_def)
  have p10: "uint (44 :: 8 word) = max 0 (min 255 (tf_round (87 / 2)))"
    using px [of 1 0] by (simp add: img_def X_def)
  have p11: "uint (5 :: 8 word) = max 0 (min 255 (tf_round (21 / 4)))"
    using px [of 1 1] by (simp add: img_def X_def)
  have p12: "uint (43 :: 8 word) = max 0 (min 255 (tf_round (427 / 10)))"
    using px [of 1 2] by (simp add: img_def X_def)
  from l x have l': "length [[[10, 255, 0], [44, 5, 43 :: 8 word]]]
       = min (nat (fst (1 :: int, 2 :: int)))
           (length [[[21 / 2, 420, - 42], [87 / 2, 21 / 4, 427 / 10], [42, 42, 42 :: real]],
                    [[0, 0, 0], [0, 0, 0], [0, 0, 0]]])"
    by (simp only: img_def X_def)
  from r0 x have r0': "length ([[[10, 255, 0], [44, 5, 43 :: 8 word]]] ! 0)
       = min (nat (snd (1 :: int, 2 :: int)))
           (length [[21 / 2, 420, - 42], [87 / 2, 21 / 4, 427 / 10], [42, 42, 42 :: real]])"
    by (simp add: img_def X_def)
  from toy_upsampled_run toy_upsampled_synthesis l' r0' p00 p01 p02 p10 p11 p12
  show ?thesis by (intro conjI)
qed

end
